theory Spec2Isabelle
  imports Complex_Main
begin

section \<open>SolarMathCore: the orbital-mechanics and time-scaling engine\<close>

text \<open>
  This theory embeds \<^verbatim>\<open>src/SolarCore/solarmathcore.cpp\<close>.

  Numbers. The source computes in \<^verbatim>\<open>float\<close> and \<^verbatim>\<open>double\<close>. Both are modelled
  as \<^typ>\<open>real\<close>: rounding, overflow to infinity, NaN and signed zeros are not
  represented. The theorems below are either about values that binary floating point
  represents exactly (the burst multiplier), about comparisons and assignments (the
  effective scale), or equate the result of the code with the same expression written
  in the words of the specification; the two geometric facts (the base plane and the
  distance to the centre of orbit) are facts of real arithmetic, which the
  floating-point computation approximates. A quotient by zero is 0 in HOL and infinite
  or NaN in the source: the one statement about a quotient by a variable, the advance
  of the roll by \<open>deltaTimeD / period * 360\<close>, is made for a period that is not zero.

  Pointers. A pointer is an \<^typ>\<open>'a option\<close>, \<^term>\<open>None\<close> being the null pointer.
  A function that dereferences a pointer without testing it returns
  \<^term>\<open>Inl NullPointer\<close> where the pointer is null.
\<close>

subsection \<open>Data\<close>

text \<open>
  The identifiers of \<^verbatim>\<open>enum class SolarObjects\<close> that the source file names. The
  declaration of the enumeration is not part of the sources; \<open>OtherObject\<close> stands for
  any further enumerator, which every \<^verbatim>\<open>switch\<close> of the file sends to its
  \<^verbatim>\<open>default\<close> branch.
\<close>

datatype SolarObjects =
    Sun | Mercury | Venus | Earth | Mars | Jupiter | Saturn | Uranus | Neptune | Pluto
  | Moon | SaturnRing | UranusRing | EarthCloud | SolarSystemView | OtherObject nat

datatype fault = NullPointer | ConversionOverflow

text \<open>
  The mathematical solar object kept by \<^verbatim>\<open>SolarObjectsContainer\<close>: the six orbital
  elements as base value and drift, the rotation period, the physical radius, the centre
  of orbit, and the current position and roll.
\<close>

record SolarObject =
  N1 :: real
  N2 :: real
  i1 :: real
  i2 :: real
  w1 :: real
  w2 :: real
  a1 :: real
  a2 :: real
  e1 :: real
  e2 :: real
  M1 :: real
  M2 :: real
  period :: real
  radius :: real
  centerOfOrbit :: SolarObjects
  obj_x :: real
  obj_y :: real
  obj_z :: real
  obj_roll :: real

text \<open>The visual body \<^verbatim>\<open>SolarObject3D\<close> of the scene.\<close>

record SolarObject3D =
  vis_x :: real
  vis_y :: real
  vis_z :: real
  vis_roll :: real
  vis_tilt :: real
  vis_r :: real

text \<open>
  \<^verbatim>\<open>PlanetArray\<close> is used as a \<^verbatim>\<open>std::map\<close> from identifier to
  \<^verbatim>\<open>SolarObject3D*\<close> (\<^verbatim>\<open>count\<close>, \<^verbatim>\<open>operator[]\<close>, iteration over
  \<^verbatim>\<open>first\<close>/\<^verbatim>\<open>second\<close>): a key is absent (\<^term>\<open>None\<close>), or bound to a null
  pointer (\<^term>\<open>Some None\<close>), or bound to a live visual body.
\<close>

type_synonym PlanetArray = "SolarObjects \<rightharpoonup> SolarObject3D option"

text \<open>
  The camera controller is a sink: the model records the getters' values and the calls
  the core makes on it, in order.
\<close>

datatype ControllerCall =
    SetDefaultZoomLimit | SetDefaultZoomSpeed | SetZoomLimit real | SetZoomSpeed real

record CameraController =
  defaultZoomLimit :: real
  defaultZoomSpeed :: real
  received :: "ControllerCall list"

text \<open>
  \<^verbatim>\<open>SolarMathCore::Data\<close>. The camera, the camera distance and the saved camera
  positions are left out: no function modelled here reads or writes them.
  \<open>solarTime\<close> is the \<^verbatim>\<open>QDateTime\<close> as milliseconds since the epoch.
\<close>

record Data =
  year :: int
  month :: int
  day :: int
  hours :: int
  minutes :: int
  seconds :: real
  solarTime :: int
  deltaTime :: real
  startD :: real
  oldTimeD :: real
  currentTimeD :: real
  deltaTimeD :: real
  daysPerFrame :: real
  daysPerFrameScale :: real
  planetScale :: real
  focusedScaling :: bool
  focusedMinimumScale :: int
  actualScale :: real
  ultraSpeed :: real
  ultraSpeedStep :: real
  ultraSpeedMax :: real
  saturnRingInnerRadius :: real
  saturnRingOuterRadius :: real
  uranusRingInnerRadius :: real
  uranusRingOuterRadius :: real
  earthCloudRModifier :: real
  solarContainer :: "SolarObjects \<rightharpoonup> SolarObject"
  container :: "PlanetArray option"
  cameraController :: "CameraController option"

text \<open>
  What the source takes from files that are not part of the sources: the parser's
  physical radius, the distance unit \<^verbatim>\<open>SolarValues::auScale\<close>, the two functions of
  \<^verbatim>\<open>Utils\<close> that convert a calendar date and a time of day to days, and Qt's
  decomposition of a \<^verbatim>\<open>QDateTime\<close> into date and time fields.
\<close>

record externals =
  parseSolarObjectRadius :: "SolarObjects \<Rightarrow> real"
  auScale :: real
  calculateTimeScale :: "int \<Rightarrow> int \<Rightarrow> int \<Rightarrow> real"
  calculateUT :: "int \<Rightarrow> int \<Rightarrow> real \<Rightarrow> real"
  dateOf :: "int \<Rightarrow> int \<times> int \<times> int"
  timeOf :: "int \<Rightarrow> int \<times> int \<times> int"

text \<open>
  The in-class initialisers of \<^verbatim>\<open>Data\<close> that the theorems below depend on.
  \<open>planetScale\<close> and \<open>actualScale\<close> have no initialiser.
\<close>

definition initialised :: "Data \<Rightarrow> bool" where
  "initialised s \<longleftrightarrow>
     focusedScaling s = False \<and> focusedMinimumScale s = 20 \<and>
     ultraSpeed s = 1 \<and> ultraSpeedStep s = 2 \<and> ultraSpeedMax s = 64 \<and>
     earthCloudRModifier s = 1.010 \<and> deltaTimeD s = 0 \<and> daysPerFrame s = 0 \<and>
     daysPerFrameScale s = 0 \<and> deltaTime s = 0"

subsection \<open>Burst speed\<close>

definition changeExtraSpeed :: "Data \<Rightarrow> Data" where
  "changeExtraSpeed s =
     (if ultraSpeed s * ultraSpeedStep s \<le> ultraSpeedMax s
      then s\<lparr>ultraSpeed := ultraSpeed s * ultraSpeedStep s\<rparr>
      else s\<lparr>ultraSpeed := 1\<rparr>)"

definition extraSpeed :: "Data \<Rightarrow> real" where
  "extraSpeed s = ultraSpeed s"

definition resetExtraSpeed :: "Data \<Rightarrow> Data" where
  "resetExtraSpeed s = s\<lparr>ultraSpeed := 1\<rparr>"

text \<open>A sequence of calls of the two operations that write the burst multiplier.\<close>

datatype SpeedCall = ChangeExtraSpeed | ResetExtraSpeed

fun speedCall :: "SpeedCall \<Rightarrow> Data \<Rightarrow> Data" where
  "speedCall ChangeExtraSpeed s = changeExtraSpeed s"
| "speedCall ResetExtraSpeed s = resetExtraSpeed s"

fun speedCalls :: "SpeedCall list \<Rightarrow> Data \<Rightarrow> Data" where
  "speedCalls [] s = s"
| "speedCalls (c # cs) s = speedCalls cs (speedCall c s)"

subsection \<open>Scale\<close>

text \<open>
  \<open>scale\<close> is a \<^verbatim>\<open>float\<close> and \<open>focusedMinimumScale\<close> an \<^verbatim>\<open>int\<close>, which the
  comparison and the assignment convert to floating point.
\<close>

definition setSolarObjectsScale :: "real \<Rightarrow> bool \<Rightarrow> Data \<Rightarrow> Data" where
  "setSolarObjectsScale scale focused s =
     (let s1 = (if \<not> focused then s\<lparr>actualScale := scale\<rparr> else s)
      in if scale \<le> real_of_int (focusedMinimumScale s1) \<and> (focusedScaling s1 \<or> focused)
         then s1\<lparr>planetScale := real_of_int (focusedMinimumScale s1)\<rparr>
         else s1\<lparr>planetScale := actualScale s1\<rparr>)"

text \<open>
  The body of the loop of \<open>changeSolarSystemScale\<close> for the entry of key \<open>k\<close>, if the
  scene has one. \<^verbatim>\<open>planet.second->setR\<close> dereferences the entry's pointer; the two
  ring cases do not touch it.
\<close>

definition scaleEntry :: "externals \<Rightarrow> real \<Rightarrow> SolarObjects \<Rightarrow> Data \<Rightarrow> fault + Data" where
  "scaleEntry ext scaling k s =
     (case container s of
        None \<Rightarrow> Inl NullPointer
      | Some pl \<Rightarrow>
          (case pl k of
             None \<Rightarrow> Inr s
           | Some ptr \<Rightarrow>
               if k = Sun then
                 (case ptr of
                    None \<Rightarrow> Inl NullPointer
                  | Some v \<Rightarrow> Inr (s\<lparr>container := Some (pl(k \<mapsto>
                      Some (v\<lparr>vis_r := parseSolarObjectRadius ext k * scaling / 80\<rparr>)))\<rparr>))
               else if k \<in> {Mercury, Venus, Earth, Mars, Jupiter, Saturn, Uranus, Neptune,
                              Pluto, Moon} then
                 (case ptr of
                    None \<Rightarrow> Inl NullPointer
                  | Some v \<Rightarrow> Inr (s\<lparr>container := Some (pl(k \<mapsto>
                      Some (v\<lparr>vis_r := parseSolarObjectRadius ext k * scaling\<rparr>)))\<rparr>))
               else if k = SaturnRing then
                 Inr (s\<lparr>saturnRingOuterRadius := saturnRingOuterRadius s * scaling,
                        saturnRingInnerRadius := saturnRingInnerRadius s * scaling\<rparr>)
               else if k = UranusRing then
                 Inr (s\<lparr>uranusRingInnerRadius := uranusRingInnerRadius s * scaling,
                        uranusRingOuterRadius := uranusRingOuterRadius s * scaling\<rparr>)
               else Inr s))"

fun scaleEntries :: "externals \<Rightarrow> real \<Rightarrow> SolarObjects list \<Rightarrow> Data \<Rightarrow> fault + Data" where
  "scaleEntries ext scaling [] s = Inr s"
| "scaleEntries ext scaling (k # ks) s =
     (case scaleEntry ext scaling k s of
        Inl f \<Rightarrow> Inl f
      | Inr s' \<Rightarrow> scaleEntries ext scaling ks s')"

text \<open>
  The keys for which the \<^verbatim>\<open>switch\<close> of the loop has a case of its own; an entry of
  any other key takes \<^verbatim>\<open>default: break\<close>. The loop visits each entry of the map
  once, and the body for one key writes only that key's visual body or that ring's two
  radii, so the order in which the keys are visited does not change the result.
\<close>

definition switchedObjects :: "SolarObjects list" where
  "switchedObjects = [Sun, Mercury, Venus, Earth, Mars, Jupiter, Saturn, Uranus, Neptune,
     Pluto, Moon, SaturnRing, UranusRing]"

definition changeSolarSystemScale :: "externals \<Rightarrow> real \<Rightarrow> bool \<Rightarrow> Data \<Rightarrow> fault + Data" where
  "changeSolarSystemScale ext scale focused s =
     (let s1 = setSolarObjectsScale scale focused s;
          scaling = planetScale s1
      in case container s1 of
           None \<Rightarrow> Inl NullPointer
         | Some pl \<Rightarrow> scaleEntries ext scaling switchedObjects s1)"

text \<open>The scene has an entry for Saturn's ring.\<close>

definition hasSaturnRing :: "Data \<Rightarrow> bool" where
  "hasSaturnRing s \<longleftrightarrow> (case container s of None \<Rightarrow> False | Some pl \<Rightarrow> pl SaturnRing \<noteq> None)"

subsection \<open>Orbit solver\<close>

text \<open>\<^verbatim>\<open>std::atan2(y, x)\<close> on the reals.\<close>

definition atan2 :: "real \<Rightarrow> real \<Rightarrow> real" where
  "atan2 y x =
     (if 0 < x then arctan (y / x)
      else if x < 0 then (if 0 \<le> y then arctan (y / x) + pi else arctan (y / x) - pi)
      else if 0 < y then pi / 2
      else if y < 0 then - (pi / 2)
      else 0)"

text \<open>
  The orbital elements of \<open>solarObj\<close> at the time \<open>t\<close> in days and the offset
  \<open>(xh, yh, zh)\<close> from the centre of orbit, in astronomical units: the block of
  \<open>solarObjectPosition\<close> from the declaration of \<open>N\<close> to that of \<open>yh\<close>.
\<close>

definition heliocentric :: "SolarObject \<Rightarrow> real \<Rightarrow> real \<times> real \<times> real" where
  "heliocentric solarObj t =
     (let N = (N1 solarObj + N2 solarObj * t) * pi / 180;
          iPlanet = (i1 solarObj + i2 solarObj * t) * pi / 180;
          w = (w1 solarObj + w2 solarObj * t) * pi / 180;
          a = a1 solarObj + a2 solarObj * t;
          e = e1 solarObj + e2 solarObj * t;
          M = (M1 solarObj + M2 solarObj * t) * pi / 180;
          E = M + e * sin M * (1 + e * cos M);
          xv = a * (cos E - e);
          yv = a * (sqrt (1 - e * e) * sin E);
          v = atan2 yv xv;
          r = sqrt (xv * xv + yv * yv);
          xh = r * (cos N * cos (v + w) - sin N * sin (v + w) * cos iPlanet);
          zh = - r * (sin N * cos (v + w) + cos N * sin (v + w) * cos iPlanet);
          yh = r * (sin (w + v) * sin iPlanet)
      in (xh, yh, zh))"

text \<open>
  \<open>solarObjectPosition\<close>. The object of the container is tested for null; the centre
  of orbit and the planets container are dereferenced without a test. Looking the
  visual body up with \<^verbatim>\<open>operator[]\<close> binds a key that the map does not have to a
  null pointer.
\<close>

definition solarObjectPosition :: "externals \<Rightarrow> SolarObjects \<Rightarrow> Data \<Rightarrow> fault + Data" where
  "solarObjectPosition ext object s =
     (case solarContainer s object of
        None \<Rightarrow> Inr s
      | Some solarObj \<Rightarrow>
          (case (if object \<noteq> Sun then
                   (case heliocentric solarObj (currentTimeD s) of
                      (xh, yh, zh) \<Rightarrow>
                        (case solarContainer s (centerOfOrbit solarObj) of
                           None \<Rightarrow> Inl NullPointer
                         | Some centerObj \<Rightarrow>
                             Inr (solarObj\<lparr>obj_x := obj_x centerObj + xh * auScale ext,
                                           obj_y := obj_y centerObj + yh * auScale ext,
                                           obj_z := obj_z centerObj + zh * auScale ext\<rparr>)))
                 else Inr solarObj) of
             Inl f \<Rightarrow> Inl f
           | Inr placed \<Rightarrow>
               (let rolled = placed\<lparr>obj_roll :=
                      obj_roll placed + deltaTimeD s / period placed * 360\<rparr>
                in case container s of
                     None \<Rightarrow> Inl NullPointer
                   | Some pl \<Rightarrow>
                       Inr (s\<lparr>solarContainer := (solarContainer s)(object \<mapsto> rolled),
                              container := Some
                                (case pl object of
                                   None \<Rightarrow> pl(object \<mapsto> None)
                                 | Some None \<Rightarrow> pl
                                 | Some (Some visualSolarObject) \<Rightarrow>
                                     pl(object \<mapsto> Some (visualSolarObject\<lparr>
                                       vis_x := obj_x rolled, vis_y := obj_y rolled,
                                       vis_z := obj_z rolled, vis_roll := obj_roll rolled\<rparr>)))\<rparr>))))"

text \<open>
  The specification's words for the orbit solver: an element at a time is base plus
  drift times the time, angles are converted to radians, the eccentric anomaly is the
  one step \<open>M + e sin M (1 + e cos M)\<close>, and the eccentric anomaly gives the coordinates
  in the orbital plane, the radius and the true anomaly, rotated by the ascending node,
  the inclination and the argument of perihelion, with the sign of one axis flipped.
\<close>

definition elementAt :: "real \<Rightarrow> real \<Rightarrow> real \<Rightarrow> real" where
  "elementAt base drift t = base + drift * t"

definition radians :: "real \<Rightarrow> real" where
  "radians d = d * pi / 180"

definition eccentricAnomalyStep :: "real \<Rightarrow> real \<Rightarrow> real" where
  "eccentricAnomalyStep e M = M + e * sin M * (1 + e * cos M)"

definition positionFromAnomaly ::
  "real \<Rightarrow> real \<Rightarrow> real \<Rightarrow> real \<Rightarrow> real \<Rightarrow> real \<Rightarrow> real \<times> real \<times> real" where
  "positionFromAnomaly a e N i w E =
     (let xv = a * (cos E - e);
          yv = a * (sqrt (1 - e * e) * sin E);
          v = atan2 yv xv;
          r = sqrt (xv * xv + yv * yv)
      in (r * (cos N * cos (v + w) - sin N * sin (v + w) * cos i),
          r * (sin (w + v) * sin i),
          - r * (sin N * cos (v + w) + cos N * sin (v + w) * cos i)))"

subsection \<open>Time\<close>

text \<open>
  The argument of \<^verbatim>\<open>addMSecs\<close> is a \<^verbatim>\<open>qint64\<close>: the \<^verbatim>\<open>double\<close> product is
  truncated toward zero, and the conversion is undefined when the truncated value does
  not fit 64 bits.
\<close>

definition toInt64 :: "real \<Rightarrow> fault + int" where
  "toInt64 v =
     (if - (2 ^ 63) - 1 < v \<and> v < 2 ^ 63
      then Inr (if 0 \<le> v then \<lfloor>v\<rfloor> else \<lceil>v\<rceil>)
      else Inl ConversionOverflow)"

text \<open>
  \<open>advanceTime\<close>. The object of the container is dereferenced without a test.
  \<^verbatim>\<open>addMSecs\<close> is the addition of the milliseconds.
\<close>

definition advanceTime :: "externals \<Rightarrow> SolarObjects \<Rightarrow> Data \<Rightarrow> fault + Data" where
  "advanceTime ext object s =
     (case (if object = SolarSystemView then Inr (daysPerFrameScale s)
            else if object = Mercury \<or> object = Venus then
              (case solarContainer s object of
                 None \<Rightarrow> Inl NullPointer
               | Some solarObj \<Rightarrow> Inr (daysPerFrameScale s * period solarObj / 15000))
            else
              (case solarContainer s object of
                 None \<Rightarrow> Inl NullPointer
               | Some solarObj \<Rightarrow> Inr (daysPerFrameScale s * period solarObj / 100))) of
        Inl f \<Rightarrow> Inl f
      | Inr dpf \<Rightarrow>
          (case toInt64 (deltaTime s * 1000 * dpf * ultraSpeed s) of
             Inl f \<Rightarrow> Inl f
           | Inr msecs \<Rightarrow>
               (let t = solarTime s + msecs in
                case timeOf ext t of
                  (hh, mm, ss) \<Rightarrow>
                    (case dateOf ext t of
                       (yy, mo, dd) \<Rightarrow>
                         (let cur = calculateTimeScale ext yy mo dd
                                      + calculateUT ext hh mm (real_of_int ss)
                          in Inr (s\<lparr>daysPerFrame := dpf, solarTime := t,
                                    hours := hh, minutes := mm, seconds := real_of_int ss,
                                    year := yy, month := mo, day := dd,
                                    oldTimeD := currentTimeD s, currentTimeD := cur,
                                    deltaTimeD := cur - currentTimeD s\<rparr>))))))"

text \<open>
  The specification's period factor: 1 for the whole-system view, the period over 15000
  for the two fastest inner planets, the period over 100 otherwise.
\<close>

definition periodFactor :: "SolarObjects \<Rightarrow> real \<Rightarrow> real" where
  "periodFactor focusId p =
     (if focusId = SolarSystemView then 1
      else if focusId \<in> {Mercury, Venus} then p / 15000
      else p / 100)"

subsection \<open>Zoom limit\<close>

text \<open>
  The two-argument \<open>calculateZoomLimit\<close>. The case of the Sun dereferences the camera
  controller without a test.
\<close>

definition calculateZoomLimit :: "SolarObjects \<Rightarrow> real \<Rightarrow> Data \<Rightarrow> fault + real" where
  "calculateZoomLimit object limit s =
     (if object = Sun then
        (case cameraController s of
           None \<Rightarrow> Inl NullPointer
         | Some c \<Rightarrow> Inr (defaultZoomLimit c))
      else if object = Mercury then Inr (limit * 2)
      else if object = Jupiter then Inr (limit / 1.5)
      else if object = Pluto then Inr (limit * 1.5)
      else Inr limit)"

definition updateSolarViewZoomLimit :: "externals \<Rightarrow> SolarObjects \<Rightarrow> Data \<Rightarrow> fault + Data" where
  "updateSolarViewZoomLimit ext object s =
     (if object = SolarSystemView then
        (case cameraController s of
           None \<Rightarrow> Inr s
         | Some c \<Rightarrow>
             Inr (s\<lparr>cameraController := Some (c\<lparr>received :=
               received c @ [SetDefaultZoomLimit, SetDefaultZoomSpeed]\<rparr>)\<rparr>))
      else
        (let solarObjRadius = parseSolarObjectRadius ext object;
             zoomLimit = planetScale s * solarObjRadius * 4
         in case calculateZoomLimit object zoomLimit s of
              Inl f \<Rightarrow> Inl f
            | Inr zoomLimit' \<Rightarrow>
                (case cameraController s of
                   None \<Rightarrow> Inr s
                 | Some c \<Rightarrow>
                     Inr (s\<lparr>cameraController := Some (c\<lparr>received :=
                       received c @ [SetZoomLimit zoomLimit',
                                     SetZoomSpeed (defaultZoomSpeed c / 3)]\<rparr>)\<rparr>))))"

text \<open>
  The specification's zoom limit of a body: the base limit is the effective scale
  times the physical radius times 4; the Sun takes the controller's default, Mercury
  doubles, Jupiter divides by 1.5, Pluto multiplies by 1.5, the others are unchanged.
\<close>

definition zoomLimitFor :: "SolarObjects \<Rightarrow> real \<Rightarrow> real \<Rightarrow> real \<Rightarrow> real" where
  "zoomLimitFor object scale physicalRadius controllerDefault =
     (let base = scale * physicalRadius * 4
      in if object = Sun then controllerDefault
         else if object = Mercury then base * 2
         else if object = Jupiter then base / 1.5
         else if object = Pluto then base * 1.5
         else base)"

subsection \<open>Rings and cloud\<close>

text \<open>
  The block that \<open>setupPlanetRings\<close> writes for Saturn and for Uranus and
  \<open>atmosphereCalculations\<close> for the Earth: if the scene has an entry for the follower
  and one for the parent, the follower takes the parent's position and tilt, the
  parent's roll over \<open>rollDivisor\<close>, and the radius \<open>newR\<close> of the parent. Both pointers
  are dereferenced without a test. The visual bodies of two keys are taken to be two
  objects.
\<close>

definition followParent ::
  "SolarObjects \<Rightarrow> SolarObjects \<Rightarrow> real \<Rightarrow> (SolarObject3D \<Rightarrow> real) \<Rightarrow> PlanetArray
     \<Rightarrow> fault + PlanetArray" where
  "followParent follower parent rollDivisor newR planets =
     (if planets follower \<noteq> None \<and> planets parent \<noteq> None then
        (case (planets parent, planets follower) of
           (Some (Some p), Some (Some d)) \<Rightarrow>
             Inr (planets(follower \<mapsto> Some (d\<lparr>vis_x := vis_x p, vis_y := vis_y p,
               vis_z := vis_z p, vis_tilt := vis_tilt p, vis_roll := vis_roll p / rollDivisor,
               vis_r := newR p\<rparr>)))
         | _ \<Rightarrow> Inl NullPointer)
      else Inr planets)"

definition setupPlanetRings :: "Data \<Rightarrow> fault + Data" where
  "setupPlanetRings s =
     (case container s of
        None \<Rightarrow> Inl NullPointer
      | Some planets \<Rightarrow>
          (case followParent SaturnRing Saturn 10
                  (\<lambda>saturn. (saturnRingInnerRadius s + saturnRingOuterRadius s) / 1.75)
                  planets of
             Inl f \<Rightarrow> Inl f
           | Inr planets1 \<Rightarrow>
               (case followParent UranusRing Uranus 10
                       (\<lambda>uranus. (uranusRingInnerRadius s + uranusRingOuterRadius s) / 1.75)
                       planets1 of
                  Inl f \<Rightarrow> Inl f
                | Inr planets2 \<Rightarrow> Inr (s\<lparr>container := Some planets2\<rparr>))))"

definition atmosphereCalculations :: "Data \<Rightarrow> fault + Data" where
  "atmosphereCalculations s =
     (case container s of
        None \<Rightarrow> Inl NullPointer
      | Some planets \<Rightarrow>
          (case followParent EarthCloud Earth 1.2
                  (\<lambda>earth. vis_r earth * earthCloudRModifier s) planets of
             Inl f \<Rightarrow> Inl f
           | Inr planets1 \<Rightarrow> Inr (s\<lparr>container := Some planets1\<rparr>)))"

definition additionalCalculation :: "Data \<Rightarrow> fault + Data" where
  "additionalCalculation s =
     (case setupPlanetRings s of
        Inl f \<Rightarrow> Inl f
      | Inr s1 \<Rightarrow> atmosphereCalculations s1)"

text \<open>
  The block of a pair dereferences a null pointer: the scene has an entry for both
  members and one of the two is null.
\<close>

definition unguardedNull :: "PlanetArray \<Rightarrow> SolarObjects \<Rightarrow> SolarObjects \<Rightarrow> bool" where
  "unguardedNull planets parent follower \<longleftrightarrow>
     planets parent \<noteq> None \<and> planets follower \<noteq> None \<and>
     (planets parent = Some None \<or> planets follower = Some None)"

text \<open>
  The specification's words for a dependent: position and tilt copied from the parent,
  the roll a fraction of the parent's, and the radius given.
\<close>

definition placedOn :: "SolarObject3D \<Rightarrow> real \<Rightarrow> real \<Rightarrow> SolarObject3D \<Rightarrow> SolarObject3D" where
  "placedOn p rollDivisor r d =
     d\<lparr>vis_x := vis_x p, vis_y := vis_y p, vis_z := vis_z p, vis_tilt := vis_tilt p,
       vis_roll := vis_roll p / rollDivisor, vis_r := r\<rparr>"

subsection \<open>Concrete states\<close>

text \<open>
  The initialised data with every other number zero, no object, no scene and no
  controller.
\<close>

definition zeroData :: Data where
  "zeroData = \<lparr>year = 0, month = 0, day = 0, hours = 0, minutes = 0, seconds = 0,
     solarTime = 0, deltaTime = 0, startD = 0, oldTimeD = 0, currentTimeD = 0,
     deltaTimeD = 0, daysPerFrame = 0, daysPerFrameScale = 0, planetScale = 0,
     focusedScaling = False, focusedMinimumScale = 20, actualScale = 0,
     ultraSpeed = 1, ultraSpeedStep = 2, ultraSpeedMax = 64,
     saturnRingInnerRadius = 0, saturnRingOuterRadius = 0,
     uranusRingInnerRadius = 0, uranusRingOuterRadius = 0,
     earthCloudRModifier = 1.010, solarContainer = Map.empty, container = None,
     cameraController = None\<rparr>"

text \<open>Externals with every radius and the distance unit 1.\<close>

definition unitExternals :: externals where
  "unitExternals = \<lparr>parseSolarObjectRadius = (\<lambda>k. 1), auScale = 1,
     calculateTimeScale = (\<lambda>y m d. 0), calculateUT = (\<lambda>h m s. 0),
     dateOf = (\<lambda>t. (0, 0, 0)), timeOf = (\<lambda>t. (0, 0, 0))\<rparr>"

definition zeroBody :: SolarObject3D where
  "zeroBody = \<lparr>vis_x = 0, vis_y = 0, vis_z = 0, vis_roll = 0, vis_tilt = 0, vis_r = 0\<rparr>"

definition saturnBody :: SolarObject3D where
  "saturnBody = \<lparr>vis_x = 3, vis_y = 4, vis_z = 5, vis_roll = 20, vis_tilt = 7, vis_r = 9\<rparr>"

text \<open>A scene with Saturn and its ring; the ring's inner and outer radii are 1 and 2.\<close>

definition ringScene :: Data where
  "ringScene = zeroData\<lparr>saturnRingInnerRadius := 1, saturnRingOuterRadius := 2,
     container := Some [Saturn \<mapsto> Some saturnBody, SaturnRing \<mapsto> Some zeroBody]\<rparr>"

definition zeroObject :: SolarObject where
  "zeroObject = \<lparr>N1 = 0, N2 = 0, i1 = 0, i2 = 0, w1 = 0, w2 = 0, a1 = 0, a2 = 0,
     e1 = 0, e2 = 0, M1 = 0, M2 = 0, period = 1, radius = 1, centerOfOrbit = Sun,
     obj_x = 0, obj_y = 0, obj_z = 0, obj_roll = 0\<rparr>"

text \<open>
  The Sun and the Earth on a circular orbit of semi-major axis 1 in the base plane, one
  day after the last frame, in a scene that has no visual body.
\<close>

definition earthOnly :: Data where
  "earthOnly = zeroData\<lparr>deltaTimeD := 1,
     solarContainer := [Sun \<mapsto> zeroObject, Earth \<mapsto> zeroObject\<lparr>a1 := 1\<rparr>],
     container := Some Map.empty\<rparr>"

definition earthScene :: Data where
  "earthScene = earthOnly\<lparr>container := Some [Earth \<mapsto> Some zeroBody]\<rparr>"

definition earthMoved :: Data where
  "earthMoved = earthOnly\<lparr>
     solarContainer := [Sun \<mapsto> zeroObject,
                        Earth \<mapsto> zeroObject\<lparr>a1 := 1, obj_x := 1, obj_roll := 360\<rparr>],
     container := Some [Earth \<mapsto> None]\<rparr>"

text \<open>
  The Earth on an orbit whose eccentricity is 1/2 and whose mean anomaly is 90 degrees
  two days after the epoch, in a scene that has no visual body.
\<close>

definition eccentricEarth :: SolarObject where
  "eccentricEarth = zeroObject\<lparr>a1 := 1, e2 := 1 / 4, M1 := 30, M2 := 30\<rparr>"

definition eccentricScene :: Data where
  "eccentricScene = zeroData\<lparr>currentTimeD := 2, deltaTimeD := 1,
     solarContainer := [Sun \<mapsto> zeroObject, Earth \<mapsto> eccentricEarth],
     container := Some Map.empty\<rparr>"

text \<open>
  A scene with Saturn and its ring, Uranus without a ring, and the Earth and its cloud.
\<close>

definition cloudScene :: Data where
  "cloudScene = zeroData\<lparr>saturnRingInnerRadius := 1, saturnRingOuterRadius := 2,
     container := Some [Saturn \<mapsto> Some saturnBody, SaturnRing \<mapsto> Some zeroBody,
       Uranus \<mapsto> Some saturnBody, Earth \<mapsto> Some saturnBody,
       EarthCloud \<mapsto> Some zeroBody]\<rparr>"

text \<open>A scene with Saturn's ring and no Saturn.\<close>

definition ringWithoutSaturn :: Data where
  "ringWithoutSaturn = zeroData\<lparr>
     solarContainer := [Sun \<mapsto> zeroObject, Saturn \<mapsto> zeroObject],
     container := Some [SaturnRing \<mapsto> Some zeroBody]\<rparr>"

text \<open>A focus on Mercury, of period 30000 days, at three days per frame.\<close>

definition mercuryFocus :: Data where
  "mercuryFocus = zeroData\<lparr>daysPerFrameScale := 3, deltaTime := 1,
     solarContainer := [Mercury \<mapsto> zeroObject\<lparr>period := 30000\<rparr>]\<rparr>"

text \<open>A core with a camera controller, at the effective scale 1.\<close>

definition zeroController :: CameraController where
  "zeroController = \<lparr>defaultZoomLimit = 50, defaultZoomSpeed = 9, received = []\<rparr>"

definition jupiterView :: Data where
  "jupiterView = zeroData\<lparr>planetScale := 1, cameraController := Some zeroController\<rparr>"

section \<open>Theorems\<close>

subsection \<open>Burst speed\<close>

text \<open>
  C2. Starting from a burst multiplier of 1 (step 2, ceiling 64), seven successive calls
  of \<open>changeExtraSpeed\<close> give the multipliers 2, 4, 8, 16, 32, 64 and then 1.
\<close>

theorem changeExtraSpeed_cycle:
  assumes "ultraSpeed s = 1" and "ultraSpeedStep s = 2" and "ultraSpeedMax s = 64"
  shows "map (\<lambda>n. extraSpeed ((changeExtraSpeed ^^ n) s)) [1, 2, 3, 4, 5, 6, 7]
           = [2, 4, 8, 16, 32, 64, 1]"
  using assms by (simp add: numeral_eq_Suc extraSpeed_def changeExtraSpeed_def)

theorem changeExtraSpeed_cycle_witness:
  "ultraSpeed zeroData = 1 \<and> ultraSpeedStep zeroData = 2 \<and> ultraSpeedMax zeroData = 64 \<and>
   map (\<lambda>n. extraSpeed ((changeExtraSpeed ^^ n) zeroData)) [1, 2, 3, 4, 5, 6, 7]
     = [2, 4, 8, 16, 32, 64, 1]"
  using changeExtraSpeed_cycle [of zeroData] by (simp add: zeroData_def)

lemma speedCall_invariant:
  assumes "ultraSpeedStep s = 2" and "ultraSpeedMax s = 64"
    and "ultraSpeed s \<in> {1, 2, 4, 8, 16, 32, 64}"
  shows "ultraSpeedStep (speedCall c s) = 2 \<and> ultraSpeedMax (speedCall c s) = 64 \<and>
         ultraSpeed (speedCall c s) \<in> {1, 2, 4, 8, 16, 32, 64}"
proof (cases c)
  case ChangeExtraSpeed
  with assms show ?thesis
    by (auto simp add: changeExtraSpeed_def)
next
  case ResetExtraSpeed
  with assms show ?thesis
    by (simp add: resetExtraSpeed_def)
qed

lemma speedCalls_invariant:
  assumes "ultraSpeedStep s = 2" and "ultraSpeedMax s = 64"
    and "ultraSpeed s \<in> {1, 2, 4, 8, 16, 32, 64}"
  shows "ultraSpeed (speedCalls cs s) \<in> {1, 2, 4, 8, 16, 32, 64}"
  using assms
proof (induction cs arbitrary: s)
  case Nil
  then show ?case by simp
next
  case (Cons c cs)
  from speedCall_invariant [OF Cons.prems, of c] Cons.IH [of "speedCall c s"]
  show ?case by simp
qed

text \<open>
  C10. The burst multiplier is initialised to 1, and after every sequence of
  \<open>changeExtraSpeed\<close> and \<open>resetExtraSpeed\<close> calls on the initialised data it is one
  of 1, 2, 4, 8, 16, 32, 64.
\<close>

theorem ultraSpeed_power_of_two:
  assumes "initialised s"
  shows "ultraSpeed s = 1 \<and> ultraSpeed (speedCalls cs s) \<in> {1, 2, 4, 8, 16, 32, 64}"
proof -
  from assms have init: "ultraSpeedStep s = 2" "ultraSpeedMax s = 64" "ultraSpeed s = 1"
    by (simp_all add: initialised_def)
  then have "ultraSpeed s \<in> {1, 2, 4, 8, 16, 32, 64}" by simp
  with init(1,2) have "ultraSpeed (speedCalls cs s) \<in> {1, 2, 4, 8, 16, 32, 64}"
    by (rule speedCalls_invariant)
  with init(3) show ?thesis by blast
qed

theorem ultraSpeed_power_of_two_witness:
  "initialised zeroData \<and>
   ultraSpeed (speedCalls [ChangeExtraSpeed, ChangeExtraSpeed, ResetExtraSpeed,
     ChangeExtraSpeed] zeroData) \<in> {1, 2, 4, 8, 16, 32, 64}"
  using ultraSpeed_power_of_two [of zeroData
    "[ChangeExtraSpeed, ChangeExtraSpeed, ResetExtraSpeed, ChangeExtraSpeed]"]
  by (simp add: initialised_def zeroData_def)

subsection \<open>Scale\<close>

text \<open>
  C3. The effective scale \<open>planetScale\<close> after \<open>setSolarObjectsScale\<close> is the floor
  when the focused flag or the focused request is set and the requested scale is at most
  the floor, and the persistent scale \<open>actualScale\<close> otherwise, where the persistent
  scale is the requested one for an unfocused request and is left alone by a focused one.
  So, for every \<open>x\<close>, and every \<open>y\<close> that is at most the floor, an unfocused request of
  \<open>x\<close> followed by a focused request of \<open>y\<close> leaves the effective scale at the floor.
\<close>

theorem setSolarObjectsScale_effective:
  assumes "y \<le> real_of_int (focusedMinimumScale s)"
  shows "planetScale (setSolarObjectsScale y True (setSolarObjectsScale x False s))
           = real_of_int (focusedMinimumScale s)
       \<and> planetScale (setSolarObjectsScale scale focused s)
           = (if (focusedScaling s \<or> focused) \<and> scale \<le> real_of_int (focusedMinimumScale s)
              then real_of_int (focusedMinimumScale s)
              else actualScale (setSolarObjectsScale scale focused s))
       \<and> actualScale (setSolarObjectsScale scale focused s)
           = (if focused then actualScale s else scale)
       \<and> focusedMinimumScale (setSolarObjectsScale scale focused s) = focusedMinimumScale s
       \<and> focusedScaling (setSolarObjectsScale scale focused s) = focusedScaling s"
  using assms by (simp add: setSolarObjectsScale_def Let_def)

theorem setSolarObjectsScale_effective_witness:
  "(7::real) \<le> real_of_int (focusedMinimumScale zeroData)
   \<and> planetScale (setSolarObjectsScale 7 True (setSolarObjectsScale 1200 False zeroData)) = 20
   \<and> planetScale (setSolarObjectsScale 1200 False zeroData) = 1200
   \<and> planetScale (setSolarObjectsScale 1200 True zeroData) = actualScale zeroData"
  using setSolarObjectsScale_effective [of 7 zeroData 1200 1200 False]
    setSolarObjectsScale_effective [of 7 zeroData 1200 1200 True]
  by (simp add: zeroData_def)

lemma scaleEntry_other:
  assumes "k \<noteq> SaturnRing" and "scaleEntry ext scaling k s = Inr s'"
  shows "saturnRingInnerRadius s' = saturnRingInnerRadius s \<and>
         saturnRingOuterRadius s' = saturnRingOuterRadius s \<and> hasSaturnRing s' = hasSaturnRing s \<and>
         planetScale s' = planetScale s"
  using assms
  by (auto simp add: scaleEntry_def hasSaturnRing_def split: option.splits if_splits)

lemma scaleEntry_ring:
  assumes "hasSaturnRing s" and "scaleEntry ext scaling SaturnRing s = Inr s'"
  shows "saturnRingInnerRadius s' = saturnRingInnerRadius s * scaling \<and>
         saturnRingOuterRadius s' = saturnRingOuterRadius s * scaling \<and> hasSaturnRing s' \<and>
         planetScale s' = planetScale s"
  using assms
  by (auto simp add: scaleEntry_def hasSaturnRing_def split: option.splits if_splits)

lemma scaleEntries_other:
  assumes "SaturnRing \<notin> set ks" and "scaleEntries ext scaling ks s = Inr s'"
  shows "saturnRingInnerRadius s' = saturnRingInnerRadius s \<and>
         saturnRingOuterRadius s' = saturnRingOuterRadius s \<and> hasSaturnRing s' = hasSaturnRing s \<and>
         planetScale s' = planetScale s"
  using assms
proof (induction ks arbitrary: s)
  case Nil
  then show ?case by simp
next
  case (Cons k ks)
  from Cons.prems(2) obtain s1 where s1: "scaleEntry ext scaling k s = Inr s1"
    and rest: "scaleEntries ext scaling ks s1 = Inr s'"
    by (auto split: sum.splits)
  from Cons.prems(1) have "k \<noteq> SaturnRing" "SaturnRing \<notin> set ks" by auto
  with scaleEntry_other [OF _ s1] Cons.IH [OF _ rest] show ?case by simp
qed

lemma scaleEntries_append:
  "scaleEntries ext scaling (ks @ ls) s =
     (case scaleEntries ext scaling ks s of Inl f \<Rightarrow> Inl f | Inr s1 \<Rightarrow> scaleEntries ext scaling ls s1)"
  by (induction ks arbitrary: s) (auto split: sum.splits)

text \<open>
  In a scene that has an entry for Saturn's ring, every call of
  \<open>changeSolarSystemScale\<close> that returns multiplies the ring's two radii by the
  effective scale of the call.
\<close>

lemma changeSolarSystemScale_ring_radius:
  assumes "hasSaturnRing s" and "changeSolarSystemScale ext scale focused s = Inr s'"
  shows "saturnRingInnerRadius s' = saturnRingInnerRadius s * planetScale s' \<and>
         saturnRingOuterRadius s' = saturnRingOuterRadius s * planetScale s' \<and> hasSaturnRing s'"
proof -
  define s1 where "s1 = setSolarObjectsScale scale focused s"
  have s1: "hasSaturnRing s1" "saturnRingInnerRadius s1 = saturnRingInnerRadius s"
    "saturnRingOuterRadius s1 = saturnRingOuterRadius s"
    using assms(1) by (simp_all add: s1_def setSolarObjectsScale_def hasSaturnRing_def Let_def)
  have split: "switchedObjects = [Sun, Mercury, Venus, Earth, Mars, Jupiter, Saturn, Uranus,
      Neptune, Pluto, Moon] @ [SaturnRing] @ [UranusRing]"
    by (simp add: switchedObjects_def)
  from assms(2) have run: "scaleEntries ext (planetScale s1) switchedObjects s1 = Inr s'"
    by (simp add: changeSolarSystemScale_def Let_def s1_def split: option.splits)
  then obtain s2 s3 where
    a: "scaleEntries ext (planetScale s1) [Sun, Mercury, Venus, Earth, Mars, Jupiter, Saturn,
          Uranus, Neptune, Pluto, Moon] s1 = Inr s2"
    and b: "scaleEntry ext (planetScale s1) SaturnRing s2 = Inr s3"
    and c: "scaleEntries ext (planetScale s1) [UranusRing] s3 = Inr s'"
    unfolding split scaleEntries_append
    by (auto split: sum.splits)
  from scaleEntries_other [OF _ a] have 2: "saturnRingInnerRadius s2 = saturnRingInnerRadius s1"
    "saturnRingOuterRadius s2 = saturnRingOuterRadius s1" "hasSaturnRing s2 = hasSaturnRing s1"
    "planetScale s2 = planetScale s1"
    by simp_all
  from 2(3) s1(1) have "hasSaturnRing s2" by simp
  from scaleEntry_ring [OF this b]
  have 3: "saturnRingInnerRadius s3 = saturnRingInnerRadius s2 * planetScale s1"
    "saturnRingOuterRadius s3 = saturnRingOuterRadius s2 * planetScale s1" "hasSaturnRing s3"
    "planetScale s3 = planetScale s2"
    by simp_all
  from scaleEntries_other [OF _ c] have 4: "saturnRingInnerRadius s' = saturnRingInnerRadius s3"
    "saturnRingOuterRadius s' = saturnRingOuterRadius s3" "hasSaturnRing s' = hasSaturnRing s3"
    "planetScale s' = planetScale s3"
    by simp_all
  from s1 2 3 4 show ?thesis by simp
qed

text \<open>
  C1. The ring radii are multiplied in place by the effective scale at every
  call of \<open>changeSolarSystemScale\<close>. In the scene \<open>ringScene\<close> two calls with the
  persistent scale 2 leave Saturn's ring radii at 4 and 8, where one call leaves them at
  2 and 4; the radius of Saturn itself, recomputed from the parsed radius at each call,
  is 2 after either.
\<close>

theorem changeSolarSystemScale_rings_compound:
  "\<exists>s1 s2 pl1 pl2 v1 v2.
     changeSolarSystemScale unitExternals 2 False ringScene = Inr s1 \<and>
     changeSolarSystemScale unitExternals 2 False s1 = Inr s2 \<and>
     saturnRingInnerRadius s1 = 2 \<and> saturnRingOuterRadius s1 = 4 \<and>
     saturnRingInnerRadius s2 = 4 \<and> saturnRingOuterRadius s2 = 8 \<and>
     container s1 = Some pl1 \<and> pl1 Saturn = Some (Some v1) \<and> vis_r v1 = 2 \<and>
     container s2 = Some pl2 \<and> pl2 Saturn = Some (Some v2) \<and> vis_r v2 = 2"
  by (simp add: changeSolarSystemScale_def setSolarObjectsScale_def scaleEntry_def
      switchedObjects_def ringScene_def zeroData_def unitExternals_def zeroBody_def
      saturnBody_def)

subsection \<open>Orbit solver\<close>

lemma rotation_polynomial:
  fixes r k c1 s1 c2 s2 :: real
  shows "(r * (c1 * c2 - s1 * s2) * k)\<^sup>2 + (r * (s1 * c2 + c1 * s2) * k)\<^sup>2
          = (r * k)\<^sup>2 * ((c1\<^sup>2 + s1\<^sup>2) * (c2\<^sup>2 + s2\<^sup>2))"
  by algebra

lemma rotation_norm:
  fixes r N u k :: real
  shows "(r * (cos N * cos u - sin N * sin u) * k)\<^sup>2
           + (r * (sin N * cos u + cos N * sin u) * k)\<^sup>2 = (r * k)\<^sup>2"
  by (simp only: rotation_polynomial cos_squared_eq) simp

lemma circle_radius:
  fixes a M :: real
  shows "sqrt (a * cos M * (a * cos M) + a * sin M * (a * sin M)) = \<bar>a\<bar>"
proof -
  have "a * cos M * (a * cos M) + a * sin M * (a * sin M) = a\<^sup>2 * ((cos M)\<^sup>2 + (sin M)\<^sup>2)"
    by algebra
  then show ?thesis by simp
qed

lemma heliocentric_circular:
  assumes "e1 so + e2 so * t = 0" and "i1 so + i2 so * t = 0"
  shows "\<exists>xh zh. heliocentric so t = (xh, 0, zh)
           \<and> (xh * k)\<^sup>2 + (zh * k)\<^sup>2 = ((a1 so + a2 so * t) * k)\<^sup>2"
  using assms rotation_norm [of "\<bar>a1 so + a2 so * t\<bar>" "(N1 so + N2 so * t) * pi / 180" _ k]
  by (simp add: heliocentric_def Let_def circle_radius power_mult_distrib)

lemma heliocentric_spec:
  "heliocentric so t =
     positionFromAnomaly (elementAt (a1 so) (a2 so) t) (elementAt (e1 so) (e2 so) t)
       (radians (elementAt (N1 so) (N2 so) t)) (radians (elementAt (i1 so) (i2 so) t))
       (radians (elementAt (w1 so) (w2 so) t))
       (eccentricAnomalyStep (elementAt (e1 so) (e2 so) t)
          (radians (elementAt (M1 so) (M2 so) t)))"
  by (simp add: heliocentric_def positionFromAnomaly_def elementAt_def radians_def
      eccentricAnomalyStep_def Let_def)

lemma solarObjectPosition_registry:
  assumes "object \<noteq> Sun" and "solarContainer s object = Some so"
    and "solarContainer s (centerOfOrbit so) = Some c" and "container s = Some pl"
    and "heliocentric so (currentTimeD s) = (xh, yh, zh)"
  shows "\<exists>s' so'. solarObjectPosition ext object s = Inr s' \<and>
           solarContainer s' object = Some so' \<and>
           obj_x so' = obj_x c + xh * auScale ext \<and>
           obj_y so' = obj_y c + yh * auScale ext \<and>
           obj_z so' = obj_z c + zh * auScale ext \<and>
           (\<forall>v. pl object = Some (Some v) \<longrightarrow>
              (\<exists>pl' v'. container s' = Some pl' \<and> pl' object = Some (Some v') \<and>
                 vis_x v' = obj_x so' \<and> vis_y v' = obj_y so' \<and> vis_z v' = obj_z so'))"
  using assms by (auto simp add: solarObjectPosition_def Let_def)

text \<open>
  C5. For a body other than the Sun that has a record in the container (and whose centre
  of orbit has one, in a core that has a planets container), \<open>solarObjectPosition\<close>
  returns, and the position it stores is the centre's position plus the distance unit
  times the position obtained from the eccentric anomaly
  \<open>E = M + e sin M (1 + e cos M)\<close>, computed once from the mean anomaly \<open>M\<close> and the
  eccentricity \<open>e\<close>, each being base plus drift times the current elapsed days.
\<close>

theorem solarObjectPosition_anomaly:
  assumes "object \<noteq> Sun" and "solarContainer s object = Some so"
    and "solarContainer s (centerOfOrbit so) = Some c" and "container s = Some pl"
  shows "\<exists>s' so'. solarObjectPosition ext object s = Inr s' \<and>
           solarContainer s' object = Some so' \<and>
           (let t = currentTimeD s;
                e = elementAt (e1 so) (e2 so) t;
                M = radians (elementAt (M1 so) (M2 so) t);
                E = eccentricAnomalyStep e M
            in case positionFromAnomaly (elementAt (a1 so) (a2 so) t) e
                      (radians (elementAt (N1 so) (N2 so) t))
                      (radians (elementAt (i1 so) (i2 so) t))
                      (radians (elementAt (w1 so) (w2 so) t)) E of
                 (xh, yh, zh) \<Rightarrow>
                   obj_x so' = obj_x c + xh * auScale ext \<and>
                   obj_y so' = obj_y c + yh * auScale ext \<and>
                   obj_z so' = obj_z c + zh * auScale ext)"
proof -
  obtain xh yh zh where h: "heliocentric so (currentTimeD s) = (xh, yh, zh)"
    by (cases "heliocentric so (currentTimeD s)") auto
  from solarObjectPosition_registry [OF assms h, of ext]
  obtain s' so' where r: "solarObjectPosition ext object s = Inr s'"
    "solarContainer s' object = Some so'"
    "obj_x so' = obj_x c + xh * auScale ext"
    "obj_y so' = obj_y c + yh * auScale ext"
    "obj_z so' = obj_z c + zh * auScale ext"
    by blast
  from h have "positionFromAnomaly (elementAt (a1 so) (a2 so) (currentTimeD s))
       (elementAt (e1 so) (e2 so) (currentTimeD s))
       (radians (elementAt (N1 so) (N2 so) (currentTimeD s)))
       (radians (elementAt (i1 so) (i2 so) (currentTimeD s)))
       (radians (elementAt (w1 so) (w2 so) (currentTimeD s)))
       (eccentricAnomalyStep (elementAt (e1 so) (e2 so) (currentTimeD s))
          (radians (elementAt (M1 so) (M2 so) (currentTimeD s)))) = (xh, yh, zh)"
    by (simp add: heliocentric_spec)
  with r show ?thesis
    by (simp add: Let_def)
qed

text \<open>
  The coordinates in the orbital plane are recovered from the radius and the true
  anomaly.
\<close>

lemma atan2_polar:
  fixes x y :: real
  shows "sqrt (x * x + y * y) * cos (atan2 y x) = x \<and> sqrt (x * x + y * y) * sin (atan2 y x) = y"
proof -
  have pos: "sqrt (u * u + v * v) * cos (arctan (v / u)) = u \<and>
             sqrt (u * u + v * v) * sin (arctan (v / u)) = v" if "0 < u" for u v :: real
  proof -
    have "u * u + v * v = u\<^sup>2 * (1 + (v / u)\<^sup>2)"
      using that by (simp add: power2_eq_square field_simps)
    then have "sqrt (u * u + v * v) = u * sqrt (1 + (v / u)\<^sup>2)"
      using that by (simp add: real_sqrt_mult)
    moreover have "sqrt (1 + (v / u)\<^sup>2) \<noteq> 0"
      by (metis add_nonneg_eq_0_iff real_sqrt_eq_zero_cancel_iff zero_le_power2 zero_neq_one zero_le_one)
    ultimately show ?thesis
      using that by (simp add: cos_arctan sin_arctan)
  qed
  consider "0 < x" | "x < 0" | "x = 0"
    by linarith
  then show ?thesis
  proof cases
    case 1
    with pos [OF 1, of y] show ?thesis by (simp add: atan2_def)
  next
    case 2
    then have "0 < - x" by simp
    from pos [OF this, of "- y"] 2 show ?thesis
      by (auto simp add: atan2_def)
  next
    case 3
    then show ?thesis
      by (auto simp add: atan2_def abs_if)
  qed
qed

lemma positionFromAnomaly_flat:
  "positionFromAnomaly a e 0 0 0 E
     = (a * (cos E - e), 0, - (a * (sqrt (1 - e * e) * sin E)))"
  using atan2_polar [of "a * (cos E - e)" "a * (sqrt (1 - e * e) * sin E)"]
  by (simp add: positionFromAnomaly_def Let_def)

lemma cos_half_less_one: "cos (1 / 2 :: real) < 1"
  using cos_monotone_0_pi [of 0 "1 / 2"] pi_ge_two by simp

text \<open>
  No solution of Kepler's equation at eccentricity 1/2 and mean anomaly \<open>\<pi>/2\<close> gives
  the \<open>x\<close> coordinate that the step gives.
\<close>

lemma kepler_solution_elsewhere:
  "\<not> (\<exists>E :: real. E - 1 / 2 * sin E = pi / 2 \<and> cos E - 1 / 2 = cos (pi / 2 + 1 / 2) - 1 / 2)"
proof
  assume "\<exists>E :: real. E - 1 / 2 * sin E = pi / 2 \<and> cos E - 1 / 2 = cos (pi / 2 + 1 / 2) - 1 / 2"
  then obtain E :: real where k: "E - 1 / 2 * sin E = pi / 2"
    and c: "cos E = cos (pi / 2 + 1 / 2)"
    by auto
  have s: "- 1 \<le> sin E" "sin E \<le> 1" by simp_all
  from k s pi_ge_two have "0 \<le> E" "E \<le> pi" by linarith+
  moreover from pi_ge_two have "0 \<le> pi / 2 + 1 / 2" "pi / 2 + 1 / 2 \<le> pi" by linarith+
  ultimately have eq: "E = pi / 2 + 1 / 2"
    using c by (rule cos_inj_pi)
  from k eq have "sin E = 1" by linarith
  then have "sin (pi / 2 + 1 / 2 :: real) = 1" by (simp only: eq)
  then have "cos (1 / 2 :: real) = 1" by (simp add: sin_add)
  with cos_half_less_one show False by simp
qed

theorem solarObjectPosition_anomaly_witness:
  "Earth \<noteq> Sun \<and> solarContainer eccentricScene Earth = Some eccentricEarth \<and>
   solarContainer eccentricScene (centerOfOrbit eccentricEarth) = Some zeroObject \<and>
   container eccentricScene = Some Map.empty \<and>
   elementAt (e1 eccentricEarth) (e2 eccentricEarth) (currentTimeD eccentricScene) = 1 / 2 \<and>
   radians (elementAt (M1 eccentricEarth) (M2 eccentricEarth) (currentTimeD eccentricScene))
     = pi / 2 \<and>
   eccentricAnomalyStep (1 / 2) (pi / 2) = pi / 2 + 1 / 2 \<and>
   (\<exists>s' so'. solarObjectPosition unitExternals Earth eccentricScene = Inr s' \<and>
      solarContainer s' Earth = Some so' \<and>
      obj_x so' = cos (pi / 2 + 1 / 2) - 1 / 2 \<and>
      obj_y so' = 0 \<and>
      obj_z so' = - (sqrt (3 / 4) * sin (pi / 2 + 1 / 2))) \<and>
   cos (pi / 2 + 1 / 2) - 1 / 2 \<noteq> cos (pi / 2) - (1 / 2 :: real) \<and>
   \<not> (\<exists>E :: real. E - 1 / 2 * sin E = pi / 2 \<and>
          cos E - 1 / 2 = cos (pi / 2 + 1 / 2) - 1 / 2)"
proof -
  have h: "Earth \<noteq> Sun" "solarContainer eccentricScene Earth = Some eccentricEarth"
    "solarContainer eccentricScene (centerOfOrbit eccentricEarth) = Some zeroObject"
    "container eccentricScene = Some Map.empty"
    by (simp_all add: eccentricScene_def eccentricEarth_def zeroObject_def)
  have e: "elementAt (e1 eccentricEarth) (e2 eccentricEarth) (currentTimeD eccentricScene) = 1 / 2"
    and m: "radians (elementAt (M1 eccentricEarth) (M2 eccentricEarth)
              (currentTimeD eccentricScene)) = pi / 2"
    and a: "elementAt (a1 eccentricEarth) (a2 eccentricEarth) (currentTimeD eccentricScene) = 1"
    and z: "radians (elementAt (N1 eccentricEarth) (N2 eccentricEarth)
              (currentTimeD eccentricScene)) = 0"
      "radians (elementAt (i1 eccentricEarth) (i2 eccentricEarth)
              (currentTimeD eccentricScene)) = 0"
      "radians (elementAt (w1 eccentricEarth) (w2 eccentricEarth)
              (currentTimeD eccentricScene)) = 0"
    by (simp_all add: elementAt_def radians_def eccentricScene_def eccentricEarth_def
        zeroObject_def zeroData_def)
  have step: "eccentricAnomalyStep (1 / 2) (pi / 2) = pi / 2 + 1 / 2"
    by (simp add: eccentricAnomalyStep_def)
  have c: "obj_x zeroObject = 0" "obj_y zeroObject = 0" "obj_z zeroObject = 0"
    "auScale unitExternals = 1"
    by (simp_all add: zeroObject_def unitExternals_def)
  have q: "(1 :: real) - 1 / 2 * (1 / 2) = 3 / 4" by simp
  from solarObjectPosition_anomaly [OF h, of unitExternals]
  have pos: "\<exists>s' so'. solarObjectPosition unitExternals Earth eccentricScene = Inr s' \<and>
      solarContainer s' Earth = Some so' \<and>
      obj_x so' = cos (pi / 2 + 1 / 2) - 1 / 2 \<and>
      obj_y so' = 0 \<and>
      obj_z so' = - (sqrt (3 / 4) * sin (pi / 2 + 1 / 2))"
    unfolding Let_def e m a z step positionFromAnomaly_flat c q
    by simp
  have "sin (1 / 2 :: real) \<noteq> 0"
    using sin_gt_zero [of "1 / 2"] pi_ge_two by simp
  then have away: "cos (pi / 2 + 1 / 2) - 1 / 2 \<noteq> cos (pi / 2) - (1 / 2 :: real)"
    by (simp add: cos_add)
  show ?thesis
    using h e m step pos away kepler_solution_elsewhere
    by - (intro conjI, assumption+)
qed

text \<open>
  C6. For a body other than the Sun whose eccentricity and inclination at the current
  time are zero, the solved position has the \<open>y\<close> coordinate of the centre of orbit, and
  its distance to the centre of orbit is the semi-major axis times the distance unit (in
  absolute value), whatever the mean anomaly; a visual body of the scene receives the
  same coordinates.
\<close>

theorem solarObjectPosition_circular:
  assumes "object \<noteq> Sun" and "solarContainer s object = Some so"
    and "solarContainer s (centerOfOrbit so) = Some c" and "container s = Some pl"
    and "elementAt (e1 so) (e2 so) (currentTimeD s) = 0"
    and "elementAt (i1 so) (i2 so) (currentTimeD s) = 0"
  shows "\<exists>s' so'. solarObjectPosition ext object s = Inr s' \<and>
           solarContainer s' object = Some so' \<and>
           obj_y so' - obj_y c = 0 \<and>
           sqrt ((obj_x so' - obj_x c)\<^sup>2 + (obj_y so' - obj_y c)\<^sup>2 + (obj_z so' - obj_z c)\<^sup>2)
             = \<bar>elementAt (a1 so) (a2 so) (currentTimeD s) * auScale ext\<bar> \<and>
           (\<forall>v. pl object = Some (Some v) \<longrightarrow>
              (\<exists>pl' v'. container s' = Some pl' \<and> pl' object = Some (Some v') \<and>
                 vis_x v' = obj_x so' \<and> vis_y v' = obj_y so' \<and> vis_z v' = obj_z so'))"
proof -
  from assms(5,6) have "e1 so + e2 so * currentTimeD s = 0" "i1 so + i2 so * currentTimeD s = 0"
    by (simp_all add: elementAt_def)
  from heliocentric_circular [OF this, of "auScale ext"]
  obtain xh zh where h: "heliocentric so (currentTimeD s) = (xh, 0, zh)"
    and n: "(xh * auScale ext)\<^sup>2 + (zh * auScale ext)\<^sup>2
              = ((a1 so + a2 so * currentTimeD s) * auScale ext)\<^sup>2"
    by blast
  from solarObjectPosition_registry [OF assms(1-4) h, of ext]
  obtain s' so' where r: "solarObjectPosition ext object s = Inr s'"
    "solarContainer s' object = Some so'"
    "obj_x so' = obj_x c + xh * auScale ext"
    "obj_y so' = obj_y c + 0 * auScale ext"
    "obj_z so' = obj_z c + zh * auScale ext"
    and v: "\<forall>v. pl object = Some (Some v) \<longrightarrow>
              (\<exists>pl' v'. container s' = Some pl' \<and> pl' object = Some (Some v') \<and>
                 vis_x v' = obj_x so' \<and> vis_y v' = obj_y so' \<and> vis_z v' = obj_z so')"
    by blast
  from r(3-5) n have "sqrt ((obj_x so' - obj_x c)\<^sup>2 + (obj_y so' - obj_y c)\<^sup>2 + (obj_z so' - obj_z c)\<^sup>2)
             = \<bar>elementAt (a1 so) (a2 so) (currentTimeD s) * auScale ext\<bar>"
    by (simp add: elementAt_def)
  with r v show ?thesis by auto
qed

theorem solarObjectPosition_circular_witness:
  "Earth \<noteq> Sun \<and> solarContainer earthScene Earth = Some (zeroObject\<lparr>a1 := 1\<rparr>) \<and>
   solarContainer earthScene (centerOfOrbit (zeroObject\<lparr>a1 := 1\<rparr>)) = Some zeroObject \<and>
   container earthScene = Some [Earth \<mapsto> Some zeroBody] \<and>
   elementAt (e1 (zeroObject\<lparr>a1 := 1\<rparr>)) (e2 (zeroObject\<lparr>a1 := 1\<rparr>))
     (currentTimeD earthScene) = 0 \<and>
   elementAt (i1 (zeroObject\<lparr>a1 := 1\<rparr>)) (i2 (zeroObject\<lparr>a1 := 1\<rparr>))
     (currentTimeD earthScene) = 0 \<and>
   (\<exists>s' so'. solarObjectPosition unitExternals Earth earthScene = Inr s' \<and>
      solarContainer s' Earth = Some so' \<and> obj_y so' = 0 \<and>
      sqrt ((obj_x so')\<^sup>2 + (obj_y so')\<^sup>2 + (obj_z so')\<^sup>2) = 1 \<and>
      (\<exists>pl' v'. container s' = Some pl' \<and> pl' Earth = Some (Some v') \<and>
         vis_x v' = obj_x so' \<and> vis_y v' = obj_y so' \<and> vis_z v' = obj_z so'))"
  using solarObjectPosition_circular [of Earth earthScene "zeroObject\<lparr>a1 := 1\<rparr>" zeroObject
      "[Earth \<mapsto> Some zeroBody]" unitExternals]
  by (simp add: earthScene_def earthOnly_def zeroData_def zeroObject_def elementAt_def
      unitExternals_def)

text \<open>
  The step is not a solution of Kepler's equation \<open>E - e sin E = M\<close>: at eccentricity 1
  and mean anomaly \<open>\<pi>/2\<close> the residual is \<open>1 - cos 1\<close>.
\<close>

lemma eccentricAnomalyStep_not_converged:
  "eccentricAnomalyStep 1 (pi / 2) - 1 * sin (eccentricAnomalyStep 1 (pi / 2)) \<noteq> pi / 2"
proof -
  have "cos (1::real) < 1"
    using cos_monotone_0_pi [of 0 1] pi_ge_two by simp
  moreover have "sin (pi / 2 + 1) = cos (1::real)"
    by (simp add: sin_add)
  ultimately show ?thesis
    by (simp add: eccentricAnomalyStep_def)
qed

text \<open>
  C8, as stated, fails: in \<open>earthOnly\<close> the scene has no visual body for the Earth, and
  \<open>solarObjectPosition\<close> moves the Earth of the container from \<open>x = 0\<close>, roll 0 to
  \<open>x = 1\<close>, roll 360, and binds the Earth's key of the scene to a null pointer.
\<close>

theorem solarObjectPosition_missing_body_counterexample:
  "container earthOnly = Some Map.empty \<and>
   solarObjectPosition unitExternals Earth earthOnly = Inr earthMoved \<and>
   earthMoved \<noteq> earthOnly \<and>
   map_option obj_roll (solarContainer earthOnly Earth) = Some 0 \<and>
   map_option obj_roll (solarContainer earthMoved Earth) = Some 360 \<and>
   map_option obj_x (solarContainer earthOnly Earth) = Some 0 \<and>
   map_option obj_x (solarContainer earthMoved Earth) = Some 1"
proof -
  have "solarObjectPosition unitExternals Earth earthOnly = Inr earthMoved"
    by (simp add: solarObjectPosition_def heliocentric_def atan2_def earthOnly_def
        earthMoved_def zeroData_def zeroObject_def unitExternals_def Let_def)
  moreover have "container earthMoved \<noteq> container earthOnly"
    by (simp add: earthMoved_def earthOnly_def zeroData_def)
  then have "earthMoved \<noteq> earthOnly" by auto
  ultimately show ?thesis
    by (simp add: earthOnly_def earthMoved_def zeroData_def zeroObject_def)
qed

lemma null_entry:
  assumes "pl k = None \<or> pl k = Some None"
  shows "(case pl k of None \<Rightarrow> pl(k \<mapsto> None) | Some None \<Rightarrow> pl
          | Some (Some v) \<Rightarrow> pl(k \<mapsto> Some (f v))) = pl(k \<mapsto> None)"
  using assms by (auto simp add: fun_upd_idem)

lemma solarObjectPosition_Sun:
  assumes "solarContainer s Sun = Some so" and "container s = Some pl"
  shows "solarObjectPosition ext Sun s
           = Inr (s\<lparr>solarContainer := (solarContainer s)(Sun \<mapsto>
                      so\<lparr>obj_roll := obj_roll so + deltaTimeD s / period so * 360\<rparr>),
                    container := Some
                      (case pl Sun of
                         None \<Rightarrow> pl(Sun \<mapsto> None)
                       | Some None \<Rightarrow> pl
                       | Some (Some v) \<Rightarrow>
                           pl(Sun \<mapsto> Some (v\<lparr>vis_x := obj_x so, vis_y := obj_y so,
                             vis_z := obj_z so,
                             vis_roll := obj_roll so + deltaTimeD s / period so * 360\<rparr>)))\<rparr>)"
  using assms by (simp add: solarObjectPosition_def Let_def split: option.splits)

lemma solarObjectPosition_body:
  assumes "object \<noteq> Sun" and "solarContainer s object = Some so"
    and "solarContainer s (centerOfOrbit so) = Some c" and "container s = Some pl"
    and "heliocentric so (currentTimeD s) = (xh, yh, zh)"
  shows "solarObjectPosition ext object s
           = Inr (s\<lparr>solarContainer := (solarContainer s)(object \<mapsto>
                      so\<lparr>obj_x := obj_x c + xh * auScale ext,
                         obj_y := obj_y c + yh * auScale ext,
                         obj_z := obj_z c + zh * auScale ext,
                         obj_roll := obj_roll so + deltaTimeD s / period so * 360\<rparr>),
                    container := Some
                      (case pl object of
                         None \<Rightarrow> pl(object \<mapsto> None)
                       | Some None \<Rightarrow> pl
                       | Some (Some v) \<Rightarrow>
                           pl(object \<mapsto> Some (v\<lparr>vis_x := obj_x c + xh * auScale ext,
                             vis_y := obj_y c + yh * auScale ext,
                             vis_z := obj_z c + zh * auScale ext,
                             vis_roll := obj_roll so + deltaTimeD s / period so * 360\<rparr>)))\<rparr>)"
  using assms by (simp add: solarObjectPosition_def Let_def split: option.splits)

lemma no_visual_result:
  assumes "container s = Some pl" and "pl object = None \<or> pl object = Some None"
    and "solarObjectPosition ext object s
           = Inr (s\<lparr>solarContainer := reg,
                    container := Some
                      (case pl object of
                         None \<Rightarrow> pl(object \<mapsto> None)
                       | Some None \<Rightarrow> pl
                       | Some (Some v) \<Rightarrow> pl(object \<mapsto> Some (f v)))\<rparr>)"
  shows "\<exists>s' pl'. solarObjectPosition ext object s = Inr s' \<and> container s' = Some pl' \<and>
           (\<forall>k v. (pl' k = Some (Some v)) = (pl k = Some (Some v))) \<and>
           s'\<lparr>container := Some pl\<rparr> = s\<lparr>solarContainer := reg\<rparr>"
proof -
  have live: "(pl(object \<mapsto> None)) k = Some (Some v) \<longleftrightarrow> pl k = Some (Some v)" for k v
    using assms(2) by auto
  have same: "s\<lparr>solarContainer := reg, container := Some pl\<rparr> = s\<lparr>solarContainer := reg\<rparr>"
    using assms(1) by (cases s) simp
  from assms(3) have "solarObjectPosition ext object s
      = Inr (s\<lparr>solarContainer := reg, container := Some (pl(object \<mapsto> None))\<rparr>)"
    by (simp only: null_entry [of pl object, OF assms(2)])
  with live same show ?thesis by simp
qed

text \<open>
  C8, amended. For an identifier with no live visual body in the scene,
  \<open>solarObjectPosition\<close> writes to no visual body: the live visual bodies of the scene
  are the same after the call. The call changes nothing when the container has no object
  for the identifier. When it has one, the object of the container is still solved: the
  Sun keeps its position, any other body is placed at the position of its centre of orbit
  plus the distance unit times the heliocentric offset, the roll advances by
  \<open>deltaTimeD / period * 360\<close>, and nothing else of the object or of the data changes.
\<close>

theorem solarObjectPosition_no_visual:
  assumes "container s = Some pl" and "pl object = None \<or> pl object = Some None"
  shows "(solarContainer s object = None \<longrightarrow> solarObjectPosition ext object s = Inr s) \<and>
         (\<forall>so. object = Sun \<and> solarContainer s object = Some so \<and> period so \<noteq> 0 \<longrightarrow>
            (\<exists>s' pl'. solarObjectPosition ext object s = Inr s' \<and> container s' = Some pl' \<and>
               (\<forall>k v. (pl' k = Some (Some v)) = (pl k = Some (Some v))) \<and>
               s'\<lparr>container := Some pl\<rparr>
                 = s\<lparr>solarContainer := (solarContainer s)(object \<mapsto>
                      so\<lparr>obj_roll := obj_roll so + deltaTimeD s / period so * 360\<rparr>)\<rparr>)) \<and>
         (\<forall>so c xh yh zh.
            object \<noteq> Sun \<and> solarContainer s object = Some so \<and>
            solarContainer s (centerOfOrbit so) = Some c \<and> period so \<noteq> 0 \<and>
            heliocentric so (currentTimeD s) = (xh, yh, zh) \<longrightarrow>
            (\<exists>s' pl'. solarObjectPosition ext object s = Inr s' \<and> container s' = Some pl' \<and>
               (\<forall>k v. (pl' k = Some (Some v)) = (pl k = Some (Some v))) \<and>
               s'\<lparr>container := Some pl\<rparr>
                 = s\<lparr>solarContainer := (solarContainer s)(object \<mapsto>
                      so\<lparr>obj_x := obj_x c + xh * auScale ext,
                         obj_y := obj_y c + yh * auScale ext,
                         obj_z := obj_z c + zh * auScale ext,
                         obj_roll := obj_roll so + deltaTimeD s / period so * 360\<rparr>)\<rparr>))"
proof (intro conjI allI impI)
  assume "solarContainer s object = None"
  then show "solarObjectPosition ext object s = Inr s"
    by (simp add: solarObjectPosition_def)
next
  fix so
  assume a: "object = Sun \<and> solarContainer s object = Some so \<and> period so \<noteq> 0"
  then have os: "object = Sun" and so: "solarContainer s Sun = Some so"
    by auto
  from no_visual_result [OF assms(1) assms(2) [unfolded os]
      solarObjectPosition_Sun [OF so assms(1), of ext]]
  show "\<exists>s' pl'. solarObjectPosition ext object s = Inr s' \<and> container s' = Some pl' \<and>
               (\<forall>k v. (pl' k = Some (Some v)) = (pl k = Some (Some v))) \<and>
               s'\<lparr>container := Some pl\<rparr>
                 = s\<lparr>solarContainer := (solarContainer s)(object \<mapsto>
                      so\<lparr>obj_roll := obj_roll so + deltaTimeD s / period so * 360\<rparr>)\<rparr>"
    unfolding os .
next
  fix so c xh yh zh
  assume a: "object \<noteq> Sun \<and> solarContainer s object = Some so \<and>
            solarContainer s (centerOfOrbit so) = Some c \<and> period so \<noteq> 0 \<and>
            heliocentric so (currentTimeD s) = (xh, yh, zh)"
  then have b: "object \<noteq> Sun" "solarContainer s object = Some so"
    "solarContainer s (centerOfOrbit so) = Some c"
    "heliocentric so (currentTimeD s) = (xh, yh, zh)"
    by simp_all
  from no_visual_result [OF assms solarObjectPosition_body [OF b(1-3) assms(1) b(4), of ext]]
  show "\<exists>s' pl'. solarObjectPosition ext object s = Inr s' \<and> container s' = Some pl' \<and>
               (\<forall>k v. (pl' k = Some (Some v)) = (pl k = Some (Some v))) \<and>
               s'\<lparr>container := Some pl\<rparr>
                 = s\<lparr>solarContainer := (solarContainer s)(object \<mapsto>
                      so\<lparr>obj_x := obj_x c + xh * auScale ext,
                         obj_y := obj_y c + yh * auScale ext,
                         obj_z := obj_z c + zh * auScale ext,
                         obj_roll := obj_roll so + deltaTimeD s / period so * 360\<rparr>)\<rparr>" .
qed

theorem solarObjectPosition_no_visual_witness:
  "container earthOnly = Some Map.empty \<and>
   ((Map.empty :: PlanetArray) Earth = None \<or> (Map.empty :: PlanetArray) Earth = Some None) \<and>
   Earth \<noteq> Sun \<and> solarContainer earthOnly Earth = Some (zeroObject\<lparr>a1 := 1\<rparr>) \<and>
   solarContainer earthOnly (centerOfOrbit (zeroObject\<lparr>a1 := 1\<rparr>)) = Some zeroObject \<and>
   period (zeroObject\<lparr>a1 := 1\<rparr>) \<noteq> 0 \<and>
   heliocentric (zeroObject\<lparr>a1 := 1\<rparr>) (currentTimeD earthOnly) = (1, 0, 0) \<and>
   (\<exists>s' pl'. solarObjectPosition unitExternals Earth earthOnly = Inr s' \<and>
      container s' = Some pl' \<and> (\<forall>k v. pl' k \<noteq> Some (Some v)) \<and>
      s'\<lparr>container := Some Map.empty\<rparr>
        = earthOnly\<lparr>solarContainer := (solarContainer earthOnly)(Earth \<mapsto>
            zeroObject\<lparr>a1 := 1, obj_x := 1, obj_roll := 360\<rparr>)\<rparr>) \<and>
   solarContainer earthOnly Sun = Some zeroObject \<and>
   (\<exists>s' pl'. solarObjectPosition unitExternals Sun earthOnly = Inr s' \<and>
      container s' = Some pl' \<and> (\<forall>k v. pl' k \<noteq> Some (Some v)) \<and>
      s'\<lparr>container := Some Map.empty\<rparr>
        = earthOnly\<lparr>solarContainer := (solarContainer earthOnly)(Sun \<mapsto>
            zeroObject\<lparr>obj_roll := 360\<rparr>)\<rparr>) \<and>
   solarContainer earthOnly Mars = None \<and>
   solarObjectPosition unitExternals Mars earthOnly = Inr earthOnly"
proof -
  have c: "container earthOnly = Some Map.empty"
    by (simp add: earthOnly_def)
  have n: "(Map.empty :: PlanetArray) Earth = None \<or> (Map.empty :: PlanetArray) Earth = Some None"
    by simp
  have e: "Earth \<noteq> Sun" "solarContainer earthOnly Earth = Some (zeroObject\<lparr>a1 := 1\<rparr>)"
    "solarContainer earthOnly (centerOfOrbit (zeroObject\<lparr>a1 := 1\<rparr>)) = Some zeroObject"
    "period (zeroObject\<lparr>a1 := 1\<rparr>) \<noteq> 0"
    "solarContainer earthOnly Sun = Some zeroObject" "period zeroObject \<noteq> 0"
    "solarContainer earthOnly Mars = None"
    by (simp_all add: earthOnly_def zeroObject_def)
  have h: "heliocentric (zeroObject\<lparr>a1 := 1\<rparr>) (currentTimeD earthOnly) = (1, 0, 0)"
    by (simp add: heliocentric_def atan2_def earthOnly_def zeroData_def zeroObject_def)
  have v: "obj_x zeroObject + 1 * auScale unitExternals = 1"
    "obj_y zeroObject + 0 * auScale unitExternals = 0"
    "obj_z zeroObject + 0 * auScale unitExternals = 0"
    "obj_roll (zeroObject\<lparr>a1 := 1\<rparr>)
       + deltaTimeD earthOnly / period (zeroObject\<lparr>a1 := 1\<rparr>) * 360 = 360"
    "obj_roll zeroObject + deltaTimeD earthOnly / period zeroObject * 360 = 360"
    by (simp_all add: zeroObject_def unitExternals_def earthOnly_def zeroData_def)
  have same: "zeroObject\<lparr>a1 := 1, obj_x := 1, obj_y := 0, obj_z := 0, obj_roll := 360\<rparr>
                = zeroObject\<lparr>a1 := 1, obj_x := 1, obj_roll := 360\<rparr>"
    by (simp add: zeroObject_def)
  have t: "(Map.empty :: PlanetArray) k = None \<or> (Map.empty :: PlanetArray) k = Some None" for k
    by simp
  from solarObjectPosition_no_visual [where s = earthOnly and pl = Map.empty
      and object = Earth and ext = unitExternals, OF c t] e(1-4) h
  have "\<exists>s' pl'. solarObjectPosition unitExternals Earth earthOnly = Inr s' \<and>
      container s' = Some pl' \<and>
      (\<forall>k v. (pl' k = Some (Some v)) = ((Map.empty :: PlanetArray) k = Some (Some v))) \<and>
      s'\<lparr>container := Some Map.empty\<rparr>
        = earthOnly\<lparr>solarContainer := (solarContainer earthOnly)(Earth \<mapsto>
            zeroObject\<lparr>a1 := 1,
              obj_x := obj_x zeroObject + 1 * auScale unitExternals,
              obj_y := obj_y zeroObject + 0 * auScale unitExternals,
              obj_z := obj_z zeroObject + 0 * auScale unitExternals,
              obj_roll := obj_roll (zeroObject\<lparr>a1 := 1\<rparr>)
                + deltaTimeD earthOnly / period (zeroObject\<lparr>a1 := 1\<rparr>) * 360\<rparr>)\<rparr>"
    by blast
  then have earth: "\<exists>s' pl'. solarObjectPosition unitExternals Earth earthOnly = Inr s' \<and>
      container s' = Some pl' \<and> (\<forall>k v. pl' k \<noteq> Some (Some v)) \<and>
      s'\<lparr>container := Some Map.empty\<rparr>
        = earthOnly\<lparr>solarContainer := (solarContainer earthOnly)(Earth \<mapsto>
            zeroObject\<lparr>a1 := 1, obj_x := 1, obj_roll := 360\<rparr>)\<rparr>"
    unfolding v same by simp
  from solarObjectPosition_no_visual [where s = earthOnly and pl = Map.empty
      and object = Sun and ext = unitExternals, OF c t] e(5,6)
  have "\<exists>s' pl'. solarObjectPosition unitExternals Sun earthOnly = Inr s' \<and>
      container s' = Some pl' \<and>
      (\<forall>k v. (pl' k = Some (Some v)) = ((Map.empty :: PlanetArray) k = Some (Some v))) \<and>
      s'\<lparr>container := Some Map.empty\<rparr>
        = earthOnly\<lparr>solarContainer := (solarContainer earthOnly)(Sun \<mapsto>
            zeroObject\<lparr>obj_roll := obj_roll zeroObject
              + deltaTimeD earthOnly / period zeroObject * 360\<rparr>)\<rparr>"
    by blast
  then have sun: "\<exists>s' pl'. solarObjectPosition unitExternals Sun earthOnly = Inr s' \<and>
      container s' = Some pl' \<and> (\<forall>k v. pl' k \<noteq> Some (Some v)) \<and>
      s'\<lparr>container := Some Map.empty\<rparr>
        = earthOnly\<lparr>solarContainer := (solarContainer earthOnly)(Sun \<mapsto>
            zeroObject\<lparr>obj_roll := 360\<rparr>)\<rparr>"
    unfolding v by simp
  from solarObjectPosition_no_visual [where s = earthOnly and pl = Map.empty
      and object = Mars and ext = unitExternals, OF c t] e(7)
  have mars: "solarObjectPosition unitExternals Mars earthOnly = Inr earthOnly"
    by blast
  show ?thesis
    using c n e(1-4) h earth e(5) sun e(7) mars
    by - (intro conjI, assumption+)
qed

subsection \<open>Time\<close>

lemma toInt64_defined:
  assumes "\<bar>v\<bar> < 2 ^ 63"
  shows "\<exists>n. toInt64 v = Inr n"
  using assms by (simp add: toInt64_def abs_less_iff)

text \<open>
  C4. For the whole-system view, and for every focus identifier that has an object in
  the container, the days per frame that \<open>advanceTime\<close> stores are the speed scale
  times the period factor: 1 for the view, the period over 15000 for Mercury and Venus,
  the period over 100 for every other body. The call returns when the milliseconds of
  the frame fit 64 bits.
\<close>

theorem advanceTime_daysPerFrame:
  assumes "object = SolarSystemView \<or> solarContainer s object = Some solarObj"
  shows "(\<forall>s'. advanceTime ext object s = Inr s' \<longrightarrow>
            daysPerFrame s' = daysPerFrameScale s * periodFactor object (period solarObj)) \<and>
         (\<bar>deltaTime s * 1000 * (daysPerFrameScale s * periodFactor object (period solarObj))
             * ultraSpeed s\<bar> < 2 ^ 63 \<longrightarrow>
            (\<exists>s'. advanceTime ext object s = Inr s'))"
proof -
  let ?dpf = "daysPerFrameScale s * periodFactor object (period solarObj)"
  have first: "(if object = SolarSystemView then Inr (daysPerFrameScale s)
            else if object = Mercury \<or> object = Venus then
              (case solarContainer s object of
                 None \<Rightarrow> Inl NullPointer
               | Some solarObj \<Rightarrow> Inr (daysPerFrameScale s * period solarObj / 15000))
            else
              (case solarContainer s object of
                 None \<Rightarrow> Inl NullPointer
               | Some solarObj \<Rightarrow> Inr (daysPerFrameScale s * period solarObj / 100)))
          = Inr ?dpf"
    using assms by (auto simp add: periodFactor_def)
  have "daysPerFrame s' = ?dpf" if "advanceTime ext object s = Inr s'" for s'
    using that unfolding advanceTime_def first
    by (auto simp add: Let_def split: sum.splits prod.splits)
  moreover have "\<exists>s'. advanceTime ext object s = Inr s'"
    if "\<bar>deltaTime s * 1000 * ?dpf * ultraSpeed s\<bar> < 2 ^ 63"
  proof -
    from toInt64_defined [OF that] obtain n
      where "toInt64 (deltaTime s * 1000 * ?dpf * ultraSpeed s) = Inr n" ..
    then show ?thesis
      unfolding advanceTime_def first
      by (simp add: Let_def split: prod.splits)
  qed
  ultimately show ?thesis by blast
qed

theorem advanceTime_daysPerFrame_witness:
  "(Mercury = SolarSystemView \<or>
      solarContainer mercuryFocus Mercury = Some (zeroObject\<lparr>period := 30000\<rparr>)) \<and>
   (\<exists>s'. advanceTime unitExternals Mercury mercuryFocus = Inr s' \<and> daysPerFrame s' = 6)"
  using advanceTime_daysPerFrame [of Mercury mercuryFocus "zeroObject\<lparr>period := 30000\<rparr>"
      unitExternals]
  by (simp add: mercuryFocus_def zeroData_def zeroObject_def periodFactor_def) blast

subsection \<open>Zoom limit\<close>

text \<open>
  C7. With a camera controller, \<open>updateSolarViewZoomLimit\<close> resets the controller to
  its default limit (and speed) for the whole-system view, and for any other identifier
  sets the limit to the base limit, effective scale times physical radius times 4,
  corrected for the body: the controller's default for the Sun, doubled for Mercury,
  divided by 1.5 for Jupiter, multiplied by 1.5 for Pluto, unchanged for the others.
  At scale 1 and radius \<open>R\<close> the limit of Jupiter is \<open>(R * 4) / 1.5\<close> and that of
  Mercury \<open>(R * 4) * 2\<close>.
\<close>

theorem updateSolarViewZoomLimit_limit:
  assumes "cameraController s = Some c"
  shows "updateSolarViewZoomLimit ext object s
           = Inr (s\<lparr>cameraController := Some (c\<lparr>received := received c @
                (if object = SolarSystemView then [SetDefaultZoomLimit, SetDefaultZoomSpeed]
                 else [SetZoomLimit (zoomLimitFor object (planetScale s)
                          (parseSolarObjectRadius ext object) (defaultZoomLimit c)),
                       SetZoomSpeed (defaultZoomSpeed c / 3)])\<rparr>)\<rparr>) \<and>
         (planetScale s = 1 \<longrightarrow>
            calculateZoomLimit Jupiter (planetScale s * R * 4) s = Inr ((R * 4) / 1.5) \<and>
            calculateZoomLimit Mercury (planetScale s * R * 4) s = Inr ((R * 4) * 2))"
  using assms
  by (simp add: updateSolarViewZoomLimit_def calculateZoomLimit_def zoomLimitFor_def Let_def)

theorem updateSolarViewZoomLimit_limit_witness:
  "cameraController jupiterView = Some zeroController \<and>
   updateSolarViewZoomLimit unitExternals Jupiter jupiterView
     = Inr (jupiterView\<lparr>cameraController := Some (zeroController\<lparr>received :=
              [SetZoomLimit (8 / 3), SetZoomSpeed 3]\<rparr>)\<rparr>) \<and>
   planetScale jupiterView = 1 \<and>
   calculateZoomLimit Jupiter (planetScale jupiterView * 6 * 4) jupiterView = Inr 16 \<and>
   calculateZoomLimit Mercury (planetScale jupiterView * 6 * 4) jupiterView = Inr 48"
  using updateSolarViewZoomLimit_limit [of jupiterView zeroController unitExternals Jupiter 6]
  by (simp add: jupiterView_def zeroData_def zeroController_def unitExternals_def
      zoomLimitFor_def)

subsection \<open>Rings and cloud\<close>

lemma followParent_cases:
  assumes "followParent follower parent rollDivisor newR planets = Inr planets'"
  shows "planets' = (case (planets parent, planets follower) of
                       (Some (Some p), Some (Some d)) \<Rightarrow>
                         planets(follower \<mapsto> Some (placedOn p rollDivisor (newR p) d))
                     | _ \<Rightarrow> planets)"
  using assms by (auto simp add: followParent_def placedOn_def split: option.splits if_splits)

lemma followParent_returns:
  assumes "\<not> unguardedNull planets parent follower"
  shows "\<exists>planets'. followParent follower parent rollDivisor newR planets = Inr planets'"
  using assms by (auto simp add: followParent_def unguardedNull_def split: option.splits)

lemma atmosphereCalculations_result:
  assumes "container s = Some planets"
    and "followParent EarthCloud Earth 1.2 (\<lambda>earth. vis_r earth * earthCloudRModifier s)
           planets = Inr planets1"
  shows "atmosphereCalculations s = Inr (s\<lparr>container := Some planets1\<rparr>)"
  by (simp only: atmosphereCalculations_def assms option.case sum.case)

text \<open>
  C9, amended. When \<open>additionalCalculation\<close> returns, for a pair whose two entries in
  the scene are live the follower has the parent's x, y, z and tilt, the parent's roll
  over 10 (rings) or over 1.2 (cloud), and the radius \<open>(inner + outer) / 1.75\<close> of the
  ring's two radii (rings) or the parent's radius times the cloud modifier (cloud); for a
  pair of which the scene has no entry for a member the follower's entry is unchanged;
  every other entry and the rest of the data are unchanged. It returns when no pair has
  both entries with a null pointer in one of them.
\<close>

theorem additionalCalculation_follow:
  assumes "container s = Some pl"
  shows "(\<forall>s'. additionalCalculation s = Inr s' \<longrightarrow>
            (\<exists>pl'. s' = s\<lparr>container := Some pl'\<rparr> \<and>
               (\<forall>p d. pl Saturn = Some (Some p) \<and> pl SaturnRing = Some (Some d) \<longrightarrow>
                  pl' SaturnRing = Some (Some (placedOn p 10
                    ((saturnRingInnerRadius s + saturnRingOuterRadius s) / 1.75) d))) \<and>
               (pl Saturn = None \<or> pl SaturnRing = None \<longrightarrow>
                  pl' SaturnRing = pl SaturnRing) \<and>
               (\<forall>p d. pl Uranus = Some (Some p) \<and> pl UranusRing = Some (Some d) \<longrightarrow>
                  pl' UranusRing = Some (Some (placedOn p 10
                    ((uranusRingInnerRadius s + uranusRingOuterRadius s) / 1.75) d))) \<and>
               (pl Uranus = None \<or> pl UranusRing = None \<longrightarrow>
                  pl' UranusRing = pl UranusRing) \<and>
               (\<forall>p d. pl Earth = Some (Some p) \<and> pl EarthCloud = Some (Some d) \<longrightarrow>
                  pl' EarthCloud = Some (Some (placedOn p 1.2
                    (vis_r p * earthCloudRModifier s) d))) \<and>
               (pl Earth = None \<or> pl EarthCloud = None \<longrightarrow>
                  pl' EarthCloud = pl EarthCloud) \<and>
               (\<forall>k. k \<notin> {SaturnRing, UranusRing, EarthCloud} \<longrightarrow> pl' k = pl k))) \<and>
         (\<not> unguardedNull pl Saturn SaturnRing \<and> \<not> unguardedNull pl Uranus UranusRing \<and>
          \<not> unguardedNull pl Earth EarthCloud \<longrightarrow>
            (\<exists>s'. additionalCalculation s = Inr s'))"
proof -
  define pl1 where "pl1 = (case (pl Saturn, pl SaturnRing) of
      (Some (Some p), Some (Some d)) \<Rightarrow> pl(SaturnRing \<mapsto> Some (placedOn p 10
         ((saturnRingInnerRadius s + saturnRingOuterRadius s) / 1.75) d))
    | _ \<Rightarrow> pl)"
  define pl2 where "pl2 = (case (pl1 Uranus, pl1 UranusRing) of
      (Some (Some p), Some (Some d)) \<Rightarrow> pl1(UranusRing \<mapsto> Some (placedOn p 10
         ((uranusRingInnerRadius s + uranusRingOuterRadius s) / 1.75) d))
    | _ \<Rightarrow> pl1)"
  define pl3 where "pl3 = (case (pl2 Earth, pl2 EarthCloud) of
      (Some (Some p), Some (Some d)) \<Rightarrow> pl2(EarthCloud \<mapsto> Some (placedOn p 1.2
         (vis_r p * earthCloudRModifier s) d))
    | _ \<Rightarrow> pl2)"
  have e1: "pl1 k = (if k = SaturnRing
        then (case (pl Saturn, pl SaturnRing) of
                (Some (Some p), Some (Some d)) \<Rightarrow> Some (Some (placedOn p 10
                   ((saturnRingInnerRadius s + saturnRingOuterRadius s) / 1.75) d))
              | _ \<Rightarrow> pl SaturnRing)
        else pl k)" for k
    unfolding pl1_def by (simp split: option.splits)
  have e2: "pl2 k = (if k = UranusRing
        then (case (pl1 Uranus, pl1 UranusRing) of
                (Some (Some p), Some (Some d)) \<Rightarrow> Some (Some (placedOn p 10
                   ((uranusRingInnerRadius s + uranusRingOuterRadius s) / 1.75) d))
              | _ \<Rightarrow> pl1 UranusRing)
        else pl1 k)" for k
    unfolding pl2_def by (simp split: option.splits)
  have e3: "pl3 k = (if k = EarthCloud
        then (case (pl2 Earth, pl2 EarthCloud) of
                (Some (Some p), Some (Some d)) \<Rightarrow> Some (Some (placedOn p 1.2
                   (vis_r p * earthCloudRModifier s) d))
              | _ \<Rightarrow> pl2 EarthCloud)
        else pl2 k)" for k
    unfolding pl3_def by (simp split: option.splits)
  have sat: "pl3 SaturnRing = Some (Some (placedOn p 10
                    ((saturnRingInnerRadius s + saturnRingOuterRadius s) / 1.75) d))"
    if "pl Saturn = Some (Some p) \<and> pl SaturnRing = Some (Some d)" for p d
    using that by (simp add: e3 e2 e1)
  have sat0: "pl3 SaturnRing = pl SaturnRing" if "pl Saturn = None \<or> pl SaturnRing = None"
    using that by (auto simp add: e3 e2 e1 split: option.splits)
  have ura: "pl3 UranusRing = Some (Some (placedOn p 10
                    ((uranusRingInnerRadius s + uranusRingOuterRadius s) / 1.75) d))"
    if "pl Uranus = Some (Some p) \<and> pl UranusRing = Some (Some d)" for p d
    using that by (simp add: e3 e2 e1)
  have ura0: "pl3 UranusRing = pl UranusRing" if "pl Uranus = None \<or> pl UranusRing = None"
    using that by (auto simp add: e3 e2 e1 split: option.splits)
  have ear: "pl3 EarthCloud = Some (Some (placedOn p 1.2
                    (vis_r p * earthCloudRModifier s) d))"
    if "pl Earth = Some (Some p) \<and> pl EarthCloud = Some (Some d)" for p d
    using that by (simp add: e3 e2 e1)
  have ear0: "pl3 EarthCloud = pl EarthCloud" if "pl Earth = None \<or> pl EarthCloud = None"
    using that by (auto simp add: e3 e2 e1 split: option.splits)
  have rest: "pl3 k = pl k" if "k \<notin> {SaturnRing, UranusRing, EarthCloud}" for k
    using that by (simp add: e3 e2 e1)
  have run: "s' = s\<lparr>container := Some pl3\<rparr>" if r: "additionalCalculation s = Inr s'" for s'
  proof -
    from r obtain s1 where r1: "setupPlanetRings s = Inr s1"
      and r2: "atmosphereCalculations s1 = Inr s'"
      by (auto simp add: additionalCalculation_def split: sum.splits)
    from r1 assms obtain q1 q2 where
      f1: "followParent SaturnRing Saturn 10
             (\<lambda>saturn. (saturnRingInnerRadius s + saturnRingOuterRadius s) / 1.75) pl = Inr q1"
      and f2: "followParent UranusRing Uranus 10
             (\<lambda>uranus. (uranusRingInnerRadius s + uranusRingOuterRadius s) / 1.75) q1 = Inr q2"
      and s1: "s1 = s\<lparr>container := Some q2\<rparr>"
      unfolding setupPlanetRings_def by (auto split: sum.splits)
    from r2 s1 obtain q3 where
      f3: "followParent EarthCloud Earth 1.2
             (\<lambda>earth. vis_r earth * earthCloudRModifier s) q2 = Inr q3"
      and s': "s' = s\<lparr>container := Some q3\<rparr>"
      unfolding atmosphereCalculations_def by (auto split: sum.splits)
    from followParent_cases [OF f1] have "q1 = pl1" by (simp only: pl1_def)
    with followParent_cases [OF f2] have "q2 = pl2" by (simp only: pl2_def)
    with followParent_cases [OF f3] have "q3 = pl3" by (simp only: pl3_def)
    with s' show ?thesis by simp
  qed
  have returns: "\<exists>s'. additionalCalculation s = Inr s'"
    if ok: "\<not> unguardedNull pl Saturn SaturnRing \<and> \<not> unguardedNull pl Uranus UranusRing \<and>
          \<not> unguardedNull pl Earth EarthCloud"
  proof -
    from ok followParent_returns obtain q1 where
      f1: "followParent SaturnRing Saturn 10
             (\<lambda>saturn. (saturnRingInnerRadius s + saturnRingOuterRadius s) / 1.75) pl = Inr q1"
      by blast
    from followParent_cases [OF f1] have q1: "q1 = pl1" by (simp only: pl1_def)
    from ok have "\<not> unguardedNull pl1 Uranus UranusRing"
      by (simp add: unguardedNull_def e1)
    with followParent_returns obtain q2 where
      f2: "followParent UranusRing Uranus 10
             (\<lambda>uranus. (uranusRingInnerRadius s + uranusRingOuterRadius s) / 1.75) pl1 = Inr q2"
      by blast
    from followParent_cases [OF f2] have q2: "q2 = pl2" by (simp only: pl2_def)
    from ok have "\<not> unguardedNull pl2 Earth EarthCloud"
      by (simp add: unguardedNull_def e2 e1)
    with followParent_returns obtain q3 where
      f3: "followParent EarthCloud Earth 1.2
             (\<lambda>earth. vis_r earth * earthCloudRModifier s) pl2 = Inr q3"
      by blast
    have rings: "setupPlanetRings s = Inr (s\<lparr>container := Some pl2\<rparr>)"
      by (simp only: setupPlanetRings_def assms option.case f1 [unfolded q1] f2 [unfolded q2]
          sum.case)
    have cloud: "atmosphereCalculations (s\<lparr>container := Some pl2\<rparr>)
                   = Inr (s\<lparr>container := Some q3\<rparr>)"
      using atmosphereCalculations_result [of "s\<lparr>container := Some pl2\<rparr>" pl2 q3] f3
      by simp
    have "additionalCalculation s = Inr (s\<lparr>container := Some q3\<rparr>)"
      by (simp only: additionalCalculation_def rings cloud sum.case)
    then show ?thesis ..
  qed
  show ?thesis
  proof (intro conjI allI impI)
    fix s'
    assume "additionalCalculation s = Inr s'"
    then have "s' = s\<lparr>container := Some pl3\<rparr>" by (rule run)
    with sat sat0 ura ura0 ear ear0 rest
    show "\<exists>pl'. s' = s\<lparr>container := Some pl'\<rparr> \<and>
               (\<forall>p d. pl Saturn = Some (Some p) \<and> pl SaturnRing = Some (Some d) \<longrightarrow>
                  pl' SaturnRing = Some (Some (placedOn p 10
                    ((saturnRingInnerRadius s + saturnRingOuterRadius s) / 1.75) d))) \<and>
               (pl Saturn = None \<or> pl SaturnRing = None \<longrightarrow>
                  pl' SaturnRing = pl SaturnRing) \<and>
               (\<forall>p d. pl Uranus = Some (Some p) \<and> pl UranusRing = Some (Some d) \<longrightarrow>
                  pl' UranusRing = Some (Some (placedOn p 10
                    ((uranusRingInnerRadius s + uranusRingOuterRadius s) / 1.75) d))) \<and>
               (pl Uranus = None \<or> pl UranusRing = None \<longrightarrow>
                  pl' UranusRing = pl UranusRing) \<and>
               (\<forall>p d. pl Earth = Some (Some p) \<and> pl EarthCloud = Some (Some d) \<longrightarrow>
                  pl' EarthCloud = Some (Some (placedOn p 1.2
                    (vis_r p * earthCloudRModifier s) d))) \<and>
               (pl Earth = None \<or> pl EarthCloud = None \<longrightarrow>
                  pl' EarthCloud = pl EarthCloud) \<and>
               (\<forall>k. k \<notin> {SaturnRing, UranusRing, EarthCloud} \<longrightarrow> pl' k = pl k)"
      by (intro exI [of _ pl3] conjI allI impI) assumption+
  next
    assume "\<not> unguardedNull pl Saturn SaturnRing \<and> \<not> unguardedNull pl Uranus UranusRing \<and>
          \<not> unguardedNull pl Earth EarthCloud"
    then show "\<exists>s'. additionalCalculation s = Inr s'" by (rule returns)
  qed
qed

theorem additionalCalculation_follow_witness:
  "container cloudScene = Some [Saturn \<mapsto> Some saturnBody, SaturnRing \<mapsto> Some zeroBody,
       Uranus \<mapsto> Some saturnBody, Earth \<mapsto> Some saturnBody,
       EarthCloud \<mapsto> Some zeroBody] \<and>
   \<not> unguardedNull [Saturn \<mapsto> Some saturnBody, SaturnRing \<mapsto> Some zeroBody,
       Uranus \<mapsto> Some saturnBody, Earth \<mapsto> Some saturnBody,
       EarthCloud \<mapsto> Some zeroBody] Saturn SaturnRing \<and>
   \<not> unguardedNull [Saturn \<mapsto> Some saturnBody, SaturnRing \<mapsto> Some zeroBody,
       Uranus \<mapsto> Some saturnBody, Earth \<mapsto> Some saturnBody,
       EarthCloud \<mapsto> Some zeroBody] Uranus UranusRing \<and>
   \<not> unguardedNull [Saturn \<mapsto> Some saturnBody, SaturnRing \<mapsto> Some zeroBody,
       Uranus \<mapsto> Some saturnBody, Earth \<mapsto> Some saturnBody,
       EarthCloud \<mapsto> Some zeroBody] Earth EarthCloud \<and>
   (\<exists>pl'. additionalCalculation cloudScene = Inr (cloudScene\<lparr>container := Some pl'\<rparr>) \<and>
      pl' SaturnRing = Some (Some \<lparr>vis_x = 3, vis_y = 4, vis_z = 5, vis_roll = 2,
        vis_tilt = 7, vis_r = 12 / 7\<rparr>) \<and>
      pl' UranusRing = None \<and>
      pl' EarthCloud = Some (Some \<lparr>vis_x = 3, vis_y = 4, vis_z = 5, vis_roll = 50 / 3,
        vis_tilt = 7, vis_r = 909 / 100\<rparr>) \<and>
      pl' Saturn = Some (Some saturnBody) \<and> pl' Uranus = Some (Some saturnBody) \<and>
      pl' Earth = Some (Some saturnBody))"
proof -
  let ?pl = "[Saturn \<mapsto> Some saturnBody, SaturnRing \<mapsto> Some zeroBody,
       Uranus \<mapsto> Some saturnBody, Earth \<mapsto> Some saturnBody,
       EarthCloud \<mapsto> Some zeroBody]"
  have c: "container cloudScene = Some ?pl"
    by (simp add: cloudScene_def)
  have u: "\<not> unguardedNull ?pl Saturn SaturnRing" "\<not> unguardedNull ?pl Uranus UranusRing"
    "\<not> unguardedNull ?pl Earth EarthCloud"
    by (simp_all add: unguardedNull_def)
  have k: "?pl Saturn = Some (Some saturnBody)" "?pl SaturnRing = Some (Some zeroBody)"
    "?pl Uranus = Some (Some saturnBody)" "?pl UranusRing = None"
    "?pl Earth = Some (Some saturnBody)" "?pl EarthCloud = Some (Some zeroBody)"
    "Saturn \<notin> {SaturnRing, UranusRing, EarthCloud}"
    "Uranus \<notin> {SaturnRing, UranusRing, EarthCloud}"
    "Earth \<notin> {SaturnRing, UranusRing, EarthCloud}"
    by simp_all
  have v: "placedOn saturnBody 10
             ((saturnRingInnerRadius cloudScene + saturnRingOuterRadius cloudScene) / 1.75)
             zeroBody
           = \<lparr>vis_x = 3, vis_y = 4, vis_z = 5, vis_roll = 2, vis_tilt = 7, vis_r = 12 / 7\<rparr>"
    "placedOn saturnBody 1.2 (vis_r saturnBody * earthCloudRModifier cloudScene) zeroBody
           = \<lparr>vis_x = 3, vis_y = 4, vis_z = 5, vis_roll = 50 / 3, vis_tilt = 7,
               vis_r = 909 / 100\<rparr>"
    by (simp_all add: placedOn_def saturnBody_def zeroBody_def cloudScene_def zeroData_def)
  note t1 = additionalCalculation_follow [OF c, THEN conjunct1]
  note t2 = additionalCalculation_follow [OF c, THEN conjunct2]
  from u have "\<not> unguardedNull ?pl Saturn SaturnRing \<and> \<not> unguardedNull ?pl Uranus UranusRing \<and>
      \<not> unguardedNull ?pl Earth EarthCloud"
    by (intro conjI)
  from mp [OF t2 this] obtain s' where r: "additionalCalculation cloudScene = Inr s'" ..
  from mp [OF spec [OF t1] r] obtain pl' where all: "s' = cloudScene\<lparr>container := Some pl'\<rparr> \<and>
     (\<forall>p d. ?pl Saturn = Some (Some p) \<and> ?pl SaturnRing = Some (Some d) \<longrightarrow>
              pl' SaturnRing = Some (Some (placedOn p 10
                ((saturnRingInnerRadius cloudScene + saturnRingOuterRadius cloudScene) / 1.75) d))) \<and>
     (?pl Saturn = None \<or> ?pl SaturnRing = None \<longrightarrow> pl' SaturnRing = ?pl SaturnRing) \<and>
     (\<forall>p d. ?pl Uranus = Some (Some p) \<and> ?pl UranusRing = Some (Some d) \<longrightarrow>
              pl' UranusRing = Some (Some (placedOn p 10
                ((uranusRingInnerRadius cloudScene + uranusRingOuterRadius cloudScene) / 1.75) d))) \<and>
     (?pl Uranus = None \<or> ?pl UranusRing = None \<longrightarrow> pl' UranusRing = ?pl UranusRing) \<and>
     (\<forall>p d. ?pl Earth = Some (Some p) \<and> ?pl EarthCloud = Some (Some d) \<longrightarrow>
              pl' EarthCloud = Some (Some (placedOn p 1.2
                (vis_r p * earthCloudRModifier cloudScene) d))) \<and>
     (?pl Earth = None \<or> ?pl EarthCloud = None \<longrightarrow> pl' EarthCloud = ?pl EarthCloud) \<and>
     (\<forall>k. k \<notin> {SaturnRing, UranusRing, EarthCloud} \<longrightarrow> pl' k = ?pl k)" ..
  note s' = all [THEN conjunct1]
  note a = all [THEN conjunct2, THEN conjunct1]
  note b = all [THEN conjunct2, THEN conjunct2, THEN conjunct2, THEN conjunct2, THEN conjunct1]
  note d = all [THEN conjunct2, THEN conjunct2, THEN conjunct2, THEN conjunct2, THEN conjunct2,
    THEN conjunct1]
  note o = all [THEN conjunct2, THEN conjunct2, THEN conjunct2, THEN conjunct2, THEN conjunct2,
    THEN conjunct2, THEN conjunct2]
  from a [rule_format, OF conjI, OF k(1,2)]
  have "pl' SaturnRing = Some (Some (placedOn saturnBody 10
      ((saturnRingInnerRadius cloudScene + saturnRingOuterRadius cloudScene) / 1.75) zeroBody))" .
  then have 1: "pl' SaturnRing = Some (Some \<lparr>vis_x = 3, vis_y = 4, vis_z = 5, vis_roll = 2,
        vis_tilt = 7, vis_r = 12 / 7\<rparr>)"
    by (simp only: v)
  from b [rule_format, OF disjI2, OF k(4)] k(4) have 2: "pl' UranusRing = None"
    by (simp only:)
  from d [rule_format, OF conjI, OF k(5,6)]
  have "pl' EarthCloud = Some (Some (placedOn saturnBody 1.2
      (vis_r saturnBody * earthCloudRModifier cloudScene) zeroBody))" .
  then have 3: "pl' EarthCloud = Some (Some \<lparr>vis_x = 3, vis_y = 4, vis_z = 5,
        vis_roll = 50 / 3, vis_tilt = 7, vis_r = 909 / 100\<rparr>)"
    by (simp only: v)
  from o [rule_format, OF k(7)] k(1) have 4: "pl' Saturn = Some (Some saturnBody)"
    by (simp only:)
  from o [rule_format, OF k(8)] k(3) have 5: "pl' Uranus = Some (Some saturnBody)"
    by (simp only:)
  from o [rule_format, OF k(9)] k(5) have 6: "pl' Earth = Some (Some saturnBody)"
    by (simp only:)
  from r s' have "additionalCalculation cloudScene = Inr (cloudScene\<lparr>container := Some pl'\<rparr>)"
    by (simp only:)
  with 1 2 3 4 5 6 have "\<exists>pl'.
      additionalCalculation cloudScene = Inr (cloudScene\<lparr>container := Some pl'\<rparr>) \<and>
      pl' SaturnRing = Some (Some \<lparr>vis_x = 3, vis_y = 4, vis_z = 5, vis_roll = 2,
        vis_tilt = 7, vis_r = 12 / 7\<rparr>) \<and>
      pl' UranusRing = None \<and>
      pl' EarthCloud = Some (Some \<lparr>vis_x = 3, vis_y = 4, vis_z = 5, vis_roll = 50 / 3,
        vis_tilt = 7, vis_r = 909 / 100\<rparr>) \<and>
      pl' Saturn = Some (Some saturnBody) \<and> pl' Uranus = Some (Some saturnBody) \<and>
      pl' Earth = Some (Some saturnBody)"
    by (intro exI [of _ pl'] conjI)
  with c u show ?thesis
    by - (intro conjI, assumption+)
qed

text \<open>
  C9, as stated, fails on the radius of a ring: with the inner and outer radii 1 and 2 the
  ring of Saturn gets the radius \<open>12/7\<close>, the sum over 1.75, not the average \<open>3/2\<close>.
\<close>

theorem setupPlanetRings_radius_counterexample:
  "setupPlanetRings ringScene
     = Inr (ringScene\<lparr>container := Some [Saturn \<mapsto> Some saturnBody,
         SaturnRing \<mapsto> Some \<lparr>vis_x = 3, vis_y = 4, vis_z = 5, vis_roll = 2,
           vis_tilt = 7, vis_r = 12 / 7\<rparr>]\<rparr>) \<and>
   (12 / 7 :: real) \<noteq> (saturnRingInnerRadius ringScene + saturnRingOuterRadius ringScene) / 2"
  by (simp add: setupPlanetRings_def followParent_def ringScene_def zeroData_def
      saturnBody_def zeroBody_def)

text \<open>
  The null entry that \<open>solarObjectPosition\<close> binds for a body without a visual body is
  dereferenced by \<open>setupPlanetRings\<close>: in a scene with Saturn's ring and no Saturn the
  propagation changes nothing before Saturn is solved and faults after.
\<close>

lemma setupPlanetRings_null_parent:
  "setupPlanetRings ringWithoutSaturn = Inr ringWithoutSaturn \<and>
   (case solarObjectPosition unitExternals Saturn ringWithoutSaturn of
      Inl f \<Rightarrow> False
    | Inr s' \<Rightarrow> container s' = Some [SaturnRing \<mapsto> Some zeroBody, Saturn \<mapsto> None] \<and>
               setupPlanetRings s' = Inl NullPointer)"
  by (simp add: setupPlanetRings_def followParent_def solarObjectPosition_def heliocentric_def
      atan2_def ringWithoutSaturn_def zeroData_def zeroObject_def zeroBody_def unitExternals_def
      Let_def)

end
